theory Spec2Isabelle
  imports Main "HOL-Library.Word"
begin

section \<open>The event dispatcher of mididings (src/engine.cc)\<close>

text \<open>
  A shallow embedding of \<^verbatim>\<open>Engine\<close>: the matching of events to patches
  (\<^verbatim>\<open>get_matching_patch\<close>), the per-event pipeline (\<^verbatim>\<open>process\<close>,
  \<^verbatim>\<open>process_event\<close>), the scene switch (\<^verbatim>\<open>switch_scene\<close>,
  \<^verbatim>\<open>process_scene_switch\<close>) and the validation of outgoing events
  (\<^verbatim>\<open>sanitize_event\<close>).

  The C++ \<^verbatim>\<open>int\<close> is modelled as \<open>int\<close>: the code only compares, copies and
  clamps these numbers, so no arithmetic can wrap. Every read that the C++ performs
  unchecked (a null pointer, \<^verbatim>\<open>find(k)->second\<close> on a missing key, an index outside
  a vector) is an error value of the model. Diagnostics printed on \<^verbatim>\<open>std::cout\<close>
  and the process mutex are not part of the model.
\<close>

subsection \<open>Events\<close>

text \<open>
  The event kinds that \<^verbatim>\<open>sanitize_event\<close> names in its \<^verbatim>\<open>switch\<close>;
  \<open>MIDI_EVENT_OTHER\<close> stands for every value that reaches the \<^verbatim>\<open>default\<close> label.
\<close>

datatype MidiEventType =
    MIDI_EVENT_NOTEON
  | MIDI_EVENT_NOTEOFF
  | MIDI_EVENT_CTRL
  | MIDI_EVENT_PITCHBEND
  | MIDI_EVENT_AFTERTOUCH
  | MIDI_EVENT_POLY_AFTERTOUCH
  | MIDI_EVENT_PROGRAM
  | MIDI_EVENT_SYSEX
  | MIDI_EVENT_SYSCM_QFRAME
  | MIDI_EVENT_SYSCM_SONGPOS
  | MIDI_EVENT_SYSCM_SONGSEL
  | MIDI_EVENT_SYSCM_TUNEREQ
  | MIDI_EVENT_SYSRT_CLOCK
  | MIDI_EVENT_SYSRT_START
  | MIDI_EVENT_SYSRT_CONTINUE
  | MIDI_EVENT_SYSRT_STOP
  | MIDI_EVENT_SYSRT_SENSING
  | MIDI_EVENT_SYSRT_RESET
  | MIDI_EVENT_DUMMY
  | MIDI_EVENT_OTHER

text \<open>
  Modelled from the spec: the struct \<^verbatim>\<open>MidiEvent\<close> (its declaration is in a header
  that is not among the sources). The members that engine.cc reads and writes are
  \<^verbatim>\<open>ev.type\<close>, \<^verbatim>\<open>ev.port\<close>, \<^verbatim>\<open>ev.channel\<close>, \<^verbatim>\<open>ev.note.note\<close>,
  \<^verbatim>\<open>ev.note.velocity\<close>, \<^verbatim>\<open>ev.ctrl.param\<close>, \<^verbatim>\<open>ev.ctrl.value\<close> and
  \<^verbatim>\<open>ev.sysex\<close> (a pointer to a byte vector, \<open>None\<close> when null).

  The event is a tagged variant: one event holds the attributes of its own kind only.
  engine.cc reads the value of a pitch bend and of a program change as
  \<^verbatim>\<open>ev.ctrl.value\<close>, and the value of a control change and of an aftertouch event
  as \<^verbatim>\<open>ev.note.velocity\<close>: the members \<^verbatim>\<open>note\<close> and \<^verbatim>\<open>ctrl\<close> are two
  names for the same two data slots. The record holds the slots, \<open>data1\<close> and
  \<open>data2\<close>; \<open>note_note\<close> and \<open>ctrl_param\<close> both name the first,
  \<open>note_velocity\<close> and \<open>ctrl_value\<close> both name the second, for reading and for
  writing. No function of engine.cc uses the first slot under both names.
\<close>

record MidiEvent =
  type :: MidiEventType
  port :: int
  channel :: int
  data1 :: int
  data2 :: int
  sysex :: "8 word list option"

abbreviation note_note :: "'a MidiEvent_scheme \<Rightarrow> int" where
  "note_note \<equiv> data1"

abbreviation note_note_update ::
  "(int \<Rightarrow> int) \<Rightarrow> 'a MidiEvent_scheme \<Rightarrow> 'a MidiEvent_scheme" where
  "note_note_update \<equiv> data1_update"

abbreviation note_velocity :: "'a MidiEvent_scheme \<Rightarrow> int" where
  "note_velocity \<equiv> data2"

abbreviation note_velocity_update ::
  "(int \<Rightarrow> int) \<Rightarrow> 'a MidiEvent_scheme \<Rightarrow> 'a MidiEvent_scheme" where
  "note_velocity_update \<equiv> data2_update"

abbreviation ctrl_param :: "'a MidiEvent_scheme \<Rightarrow> int" where
  "ctrl_param \<equiv> data1"

abbreviation ctrl_param_update ::
  "(int \<Rightarrow> int) \<Rightarrow> 'a MidiEvent_scheme \<Rightarrow> 'a MidiEvent_scheme" where
  "ctrl_param_update \<equiv> data1_update"

abbreviation ctrl_value :: "'a MidiEvent_scheme \<Rightarrow> int" where
  "ctrl_value \<equiv> data2"

abbreviation ctrl_value_update ::
  "(int \<Rightarrow> int) \<Rightarrow> 'a MidiEvent_scheme \<Rightarrow> 'a MidiEvent_scheme" where
  "ctrl_value_update \<equiv> data2_update"

text \<open>
  Modelled from the spec: the default constructor of \<^verbatim>\<open>MidiEvent\<close>, which is in the
  missing header. The source builds the dummy event by
  \<^verbatim>\<open>MidiEvent dummy_ev; dummy_ev.type = MIDI_EVENT_DUMMY;\<close> and a dummy event
  carries no attributes: the numeric members are zero and the sysex pointer is null.
\<close>

definition dummy_ev :: MidiEvent where
  "dummy_ev = \<lparr> type = MIDI_EVENT_DUMMY, port = 0, channel = 0, data1 = 0, data2 = 0,
     sysex = None \<rparr>"

subsection \<open>Patches, scenes and the engine\<close>

text \<open>
  A \<^verbatim>\<open>Patch *\<close> is compared and stored by address only, so a patch is a handle.
  What a patch does to the events of a range is given by the external collaborators
  below.
\<close>

type_synonym Patch = nat

record Scene =
  patch :: Patch
  init_patch :: "Patch option"
  exit_patch :: "Patch option"

text \<open>
  Modelled from the spec: \<^verbatim>\<open>make_notekey\<close> and \<^verbatim>\<open>make_sustainkey\<close> (declared in
  engine.hh, which is not among the sources): the key of a note is
  (channel, note, port), the key of a sustain pedal is (channel, port).
\<close>

type_synonym NoteKey = "int \<times> int \<times> int"
type_synonym SustainKey = "int \<times> int"

definition make_notekey :: "MidiEvent \<Rightarrow> NoteKey" where
  "make_notekey ev = (channel ev, note_note ev, port ev)"

definition make_sustainkey :: "MidiEvent \<Rightarrow> SustainKey" where
  "make_sustainkey ev = (channel ev, port ev)"

text \<open>
  The members of \<^verbatim>\<open>Engine\<close> that the dispatcher reads and writes. \<open>backend\<close> is
  \<open>None\<close> for a null \<^verbatim>\<open>_backend\<close> and otherwise holds what
  \<^verbatim>\<open>_backend->num_out_ports()\<close> returns. The tracking tables store a
  \<^verbatim>\<open>Patch *\<close>, which may be null, hence \<open>Patch option\<close> as the value type.

  Modelled from the spec: the type of the two tracking tables and the constants
  \<^verbatim>\<open>config::MAX_SIMULTANEOUS_NOTES\<close> and \<^verbatim>\<open>config::MAX_SUSTAIN_PEDALS\<close> that
  the constructor passes to them (engine.hh and config.hh are not among the sources).
  A table is a bounded mapping: it holds at most as many entries as its capacity,
  and an insertion into a full table evicts a prior entry, which one being up to
  the table. The capacities are the members \<open>max_simultaneous_notes\<close> and
  \<open>max_sustain_pedals\<close>; \<open>evict_note\<close> and \<open>evict_sustain\<close> give the key of the
  entry that a full table evicts. All four are parameters: no function changes them.
\<close>

record Engine =
  verbose :: bool
  backend :: "nat option"
  scenes :: "int \<rightharpoonup> Scene list"
  ctrl_patch :: "Patch option"
  pre_patch :: "Patch option"
  post_patch :: "Patch option"
  current_patch :: "Patch option"
  current_scene :: int
  current_subscene :: int
  new_scene :: int
  new_subscene :: int
  noteon_patches :: "NoteKey \<rightharpoonup> Patch option"
  sustain_patches :: "SustainKey \<rightharpoonup> Patch option"
  max_simultaneous_notes :: nat
  max_sustain_pedals :: nat
  evict_note :: "(NoteKey \<rightharpoonup> Patch option) \<Rightarrow> NoteKey"
  evict_sustain :: "(SustainKey \<rightharpoonup> Patch option) \<Rightarrow> SustainKey"

text \<open>
  Modelled from the spec: the external collaborators. \<open>patch_process p r\<close> is
  \<^verbatim>\<open>Patch::process\<close> of patch \<open>p\<close> on the events \<open>r\<close> of a range: it returns the
  events the range holds afterwards (patch.hh and the unit library are not among the
  sources). \<open>scene_switch_callback a b\<close> is the scripted handler called with the
  pending scene and subscene; it may call back into \<^verbatim>\<open>switch_scene\<close>, and the pair it
  returns is the value of \<^verbatim>\<open>_new_scene\<close> and \<^verbatim>\<open>_new_subscene\<close> after the call.
\<close>

record Collab =
  patch_process :: "Patch \<Rightarrow> MidiEvent list \<Rightarrow> MidiEvent list"
  scene_switch_callback :: "int \<Rightarrow> int \<Rightarrow> int \<times> int"

datatype error = NullPointer | SceneNotFound | IndexOutOfRange | AssertionFailed

subsection \<open>sanitize\_event\<close>

text \<open>
  \<^verbatim>\<open>bool Engine::sanitize_event(MidiEvent & ev) const\<close>: the result is the
  returned flag together with the event as the call leaves it. The first test reads
  \<^verbatim>\<open>_backend->num_out_ports()\<close> for the warning when \<^verbatim>\<open>_verbose\<close> is set, also
  when \<^verbatim>\<open>_backend\<close> is null: that read is the error \<open>NullPointer\<close>. So is the
  read of the size of a null \<^verbatim>\<open>ev.sysex\<close>. The test of a sysex event is written
  the other way round: the source returns false when the size is below 2, the first
  byte is not 0xf0 or the last byte is not 0xf7.
\<close>

definition port_out_of_range :: "Engine \<Rightarrow> MidiEvent \<Rightarrow> bool" where
  "port_out_of_range s ev =
     (port ev < 0 \<or> (case backend s of None \<Rightarrow> False | Some n \<Rightarrow> port ev \<ge> int n))"

definition sanitize_note :: "MidiEvent \<Rightarrow> bool \<times> MidiEvent" where
  "sanitize_note ev =
     (if note_note ev < 0 \<or> note_note ev > 127 then (False, ev)
      else
        let ev' = ev\<lparr>note_velocity := max 0 (min 127 (note_velocity ev))\<rparr> in
        if type ev' = MIDI_EVENT_NOTEON \<and> note_velocity ev' < 0 then (False, ev')
        else (True, ev'))"

definition sanitize_sysex :: "MidiEvent \<Rightarrow> error + bool \<times> MidiEvent" where
  "sanitize_sysex ev =
     (case sysex ev of
        None \<Rightarrow> Inl NullPointer
      | Some d \<Rightarrow>
          if length d < 2 then Inr (False, ev)
          else if d ! 0 = 0xF0 \<and> d ! (length d - 1) = 0xF7 then Inr (True, ev)
          else Inr (False, ev))"

definition sanitize_event :: "Engine \<Rightarrow> MidiEvent \<Rightarrow> error + bool \<times> MidiEvent" where
  "sanitize_event s ev =
     (if port_out_of_range s ev then
        (if verbose s \<and> backend s = None then Inl NullPointer else Inr (False, ev))
      else if channel ev < 0 \<or> channel ev > 15 then Inr (False, ev)
      else
        case type ev of
          MIDI_EVENT_NOTEON \<Rightarrow> Inr (sanitize_note ev)
        | MIDI_EVENT_NOTEOFF \<Rightarrow> Inr (sanitize_note ev)
        | MIDI_EVENT_CTRL \<Rightarrow>
            if ctrl_param ev < 0 \<or> ctrl_param ev > 127 then Inr (False, ev)
            else Inr (True, ev\<lparr>ctrl_value := max 0 (min 127 (note_velocity ev))\<rparr>)
        | MIDI_EVENT_PITCHBEND \<Rightarrow>
            Inr (True, ev\<lparr>ctrl_value := max (- 8192) (min 8191 (ctrl_value ev))\<rparr>)
        | MIDI_EVENT_AFTERTOUCH \<Rightarrow>
            Inr (True, ev\<lparr>ctrl_value := max 0 (min 127 (note_velocity ev))\<rparr>)
        | MIDI_EVENT_PROGRAM \<Rightarrow>
            if ctrl_value ev < 0 \<or> ctrl_value ev > 127 then Inr (False, ev)
            else Inr (True, ev)
        | MIDI_EVENT_SYSEX \<Rightarrow> sanitize_sysex ev
        | MIDI_EVENT_POLY_AFTERTOUCH \<Rightarrow> Inr (True, ev)
        | MIDI_EVENT_SYSCM_QFRAME \<Rightarrow> Inr (True, ev)
        | MIDI_EVENT_SYSCM_SONGPOS \<Rightarrow> Inr (True, ev)
        | MIDI_EVENT_SYSCM_SONGSEL \<Rightarrow> Inr (True, ev)
        | MIDI_EVENT_SYSCM_TUNEREQ \<Rightarrow> Inr (True, ev)
        | MIDI_EVENT_SYSRT_CLOCK \<Rightarrow> Inr (True, ev)
        | MIDI_EVENT_SYSRT_START \<Rightarrow> Inr (True, ev)
        | MIDI_EVENT_SYSRT_CONTINUE \<Rightarrow> Inr (True, ev)
        | MIDI_EVENT_SYSRT_STOP \<Rightarrow> Inr (True, ev)
        | MIDI_EVENT_SYSRT_SENSING \<Rightarrow> Inr (True, ev)
        | MIDI_EVENT_SYSRT_RESET \<Rightarrow> Inr (True, ev)
        | MIDI_EVENT_DUMMY \<Rightarrow> Inr (False, ev)
        | MIDI_EVENT_OTHER \<Rightarrow> Inr (False, ev))"

text \<open>An event passes the predicates of sanitize when the call returns true for it.\<close>

definition sanitize_ok :: "Engine \<Rightarrow> MidiEvent \<Rightarrow> bool" where
  "sanitize_ok s ev = (case sanitize_event s ev of Inl _ \<Rightarrow> False | Inr (keep, _) \<Rightarrow> keep)"

text \<open>
  Modelled from the spec: \<^verbatim>\<open>_sanitize_patch->process\<close>, the patch built in the
  constructor from a single \<^verbatim>\<open>units::Sanitize\<close> (the unit is not among the sources).
  It calls \<^verbatim>\<open>sanitize_event\<close> on each event of the range, keeps the event as the
  call left it when the call returned true and removes it otherwise.
\<close>

fun sanitize_patch_process :: "Engine \<Rightarrow> MidiEvent list \<Rightarrow> error + MidiEvent list" where
  "sanitize_patch_process s [] = Inr []"
| "sanitize_patch_process s (ev # r) =
     (case sanitize_event s ev of
        Inl e \<Rightarrow> Inl e
      | Inr (keep, ev') \<Rightarrow>
          (case sanitize_patch_process s r of
             Inl e \<Rightarrow> Inl e
           | Inr r' \<Rightarrow> Inr (if keep then ev' # r' else r')))"

subsection \<open>get\_matching\_patch\<close>

text \<open>
  \<^verbatim>\<open>insert(std::make_pair(k, v))\<close> on a tracking table. A key that the table
  holds keeps its entry: the insertion of a container with unique keys does not
  overwrite. A new key is added; when the table is full, the entry that the table
  evicts goes first.
\<close>

definition table_insert ::
  "nat \<Rightarrow> (('k \<rightharpoonup> 'v) \<Rightarrow> 'k) \<Rightarrow> ('k \<rightharpoonup> 'v) \<Rightarrow> 'k \<Rightarrow> 'v \<Rightarrow> ('k \<rightharpoonup> 'v)" where
  "table_insert cap victim m k v =
     (case m k of
        Some _ \<Rightarrow> m
      | None \<Rightarrow>
          if card (dom m) < cap then m(k \<mapsto> v)
          else (m(victim m := None))(k \<mapsto> v))"

definition get_matching_patch :: "Engine \<Rightarrow> MidiEvent \<Rightarrow> Patch option \<times> Engine" where
  "get_matching_patch s ev =
     (if type ev = MIDI_EVENT_NOTEON then
        (current_patch s,
         s\<lparr>noteon_patches :=
             table_insert (max_simultaneous_notes s) (evict_note s)
               (noteon_patches s) (make_notekey ev) (current_patch s)\<rparr>)
      else if type ev = MIDI_EVENT_NOTEOFF then
        (case noteon_patches s (make_notekey ev) of
           Some p \<Rightarrow> (p, s\<lparr>noteon_patches := (noteon_patches s)(make_notekey ev := None)\<rparr>)
         | None \<Rightarrow> (current_patch s, s))
      else if type ev = MIDI_EVENT_CTRL \<and> ctrl_param ev = 64 \<and> ctrl_value ev = 127 then
        (current_patch s,
         s\<lparr>sustain_patches :=
             table_insert (max_sustain_pedals s) (evict_sustain s)
               (sustain_patches s) (make_sustainkey ev) (current_patch s)\<rparr>)
      else if type ev = MIDI_EVENT_CTRL \<and> ctrl_param ev = 64 \<and> ctrl_value ev = 0 then
        (case sustain_patches s (make_sustainkey ev) of
           Some p \<Rightarrow> (p, s\<lparr>sustain_patches := (sustain_patches s)(make_sustainkey ev := None)\<rparr>)
         | None \<Rightarrow> (current_patch s, s))
      else (current_patch s, s))"

subsection \<open>switch\_scene and process\_scene\_switch\<close>

definition switch_scene :: "Engine \<Rightarrow> int \<Rightarrow> int \<Rightarrow> Engine" where
  "switch_scene s scene subscene =
     (let s1 = (if scene \<noteq> - 1 then s\<lparr>new_scene := scene\<rparr> else s)
      in if subscene \<noteq> - 1 then s1\<lparr>new_subscene := subscene\<rparr> else s1)"

text \<open>
  \<^verbatim>\<open>_scenes.find(i)->second[j]\<close>, which the source evaluates without a check: a
  missing key and an index outside the vector are errors.
\<close>

definition scene_at :: "(int \<rightharpoonup> Scene list) \<Rightarrow> int \<Rightarrow> int \<Rightarrow> error + Scene" where
  "scene_at m i j =
     (case m i of
        None \<Rightarrow> Inl SceneNotFound
      | Some subs \<Rightarrow>
          if 0 \<le> j \<and> j < int (length subs) then Inr (subs ! nat j) else Inl IndexOutOfRange)"

text \<open>
  The block that the source writes twice, once for the exit patch and once for the
  init patch: append the dummy event, take the range from it to the end, run the patch,
  then the post patch if there is one, then the sanitize patch.
\<close>

definition process_dummy ::
  "Collab \<Rightarrow> Engine \<Rightarrow> Patch \<Rightarrow> MidiEvent list \<Rightarrow> error + MidiEvent list" where
  "process_dummy X s p buffer =
     (let r = [dummy_ev];
          r = patch_process X p r;
          r = (case post_patch s of None \<Rightarrow> r | Some q \<Rightarrow> patch_process X q r)
      in case sanitize_patch_process s r of
           Inl e \<Rightarrow> Inl e
         | Inr r' \<Rightarrow> Inr (buffer @ r'))"

definition run_exit_patch ::
  "Collab \<Rightarrow> Engine \<Rightarrow> MidiEvent list \<Rightarrow> error + MidiEvent list" where
  "run_exit_patch X s buffer =
     (if current_scene s \<noteq> - 1 then
        (case scene_at (scenes s) (current_scene s) (current_subscene s) of
           Inl e \<Rightarrow> Inl e
         | Inr prev_scene \<Rightarrow>
             (case exit_patch prev_scene of
                None \<Rightarrow> Inr buffer
              | Some p \<Rightarrow> process_dummy X s p buffer))
      else Inr buffer)"

definition run_init_patch ::
  "Collab \<Rightarrow> Engine \<Rightarrow> Scene \<Rightarrow> MidiEvent list \<Rightarrow> error + MidiEvent list" where
  "run_init_patch X s scene buffer =
     (case init_patch scene of
        None \<Rightarrow> Inr buffer
      | Some p \<Rightarrow> process_dummy X s p buffer)"

text \<open>The call of the scripted handler, made when there is more than one scene.\<close>

definition call_scene_switch_callback :: "Collab \<Rightarrow> Engine \<Rightarrow> Engine" where
  "call_scene_switch_callback X s =
     (if 1 < card (dom (scenes s)) then
        (case scene_switch_callback X (new_scene s) (new_subscene s) of
           (a, b) \<Rightarrow> s\<lparr>new_scene := a, new_subscene := b\<rparr>)
      else s)"

definition mark_done :: "Engine \<Rightarrow> Engine" where
  "mark_done s = s\<lparr>new_scene := - 1, new_subscene := - 1\<rparr>"

text \<open>
  The scene and subscene number the switch goes to, as the source computes them from
  the pending request: \<^verbatim>\<open>_new_scene != -1 ? _new_scene : _current_scene\<close> and
  \<^verbatim>\<open>_new_subscene != -1 ? _new_subscene : 0\<close>.
\<close>

definition scene_num :: "Engine \<Rightarrow> int" where
  "scene_num s = (if new_scene s \<noteq> - 1 then new_scene s else current_scene s)"

definition subscene_num :: "Engine \<Rightarrow> int" where
  "subscene_num s = (if new_subscene s \<noteq> - 1 then new_subscene s else 0)"

text \<open>
  \<^verbatim>\<open>Engine::process_scene_switch\<close>. The test before the switch compares the
  subscene number with the size of the vector from above only; the read
  \<^verbatim>\<open>scene_it->second[subscene_num]\<close> that follows is outside the vector for a
  negative number, which is the error \<open>IndexOutOfRange\<close>.
\<close>

definition process_scene_switch ::
  "Collab \<Rightarrow> Engine \<Rightarrow> MidiEvent list \<Rightarrow> error + MidiEvent list \<times> Engine" where
  "process_scene_switch X s0 buffer =
     (if new_scene s0 = - 1 \<and> new_subscene s0 = - 1 then Inr (buffer, s0)
      else
        let s = call_scene_switch_callback X s0 in
        case scenes s (scene_num s) of
          None \<Rightarrow> Inr (buffer, mark_done s)
        | Some subs \<Rightarrow>
            if int (length subs) > subscene_num s then
              (if subscene_num s < 0 then Inl IndexOutOfRange
               else
                 let scene = subs ! nat (subscene_num s) in
                 case run_exit_patch X s buffer of
                   Inl e \<Rightarrow> Inl e
                 | Inr buffer1 \<Rightarrow>
                     (case run_init_patch X s scene buffer1 of
                        Inl e \<Rightarrow> Inl e
                      | Inr buffer2 \<Rightarrow>
                          Inr (buffer2,
                               mark_done
                                 (s\<lparr>current_patch := Some (patch scene),
                                    current_scene := scene_num s,
                                    current_subscene := subscene_num s\<rparr>))))
            else Inr (buffer, mark_done s))"

text \<open>
  What a scene switch appends for one patch: the dummy event run through the patch,
  then through the post patch if one is set, then through the sanitize patch.
\<close>

definition dummy_output :: "Collab \<Rightarrow> Engine \<Rightarrow> Patch \<Rightarrow> error + MidiEvent list" where
  "dummy_output X s p =
     sanitize_patch_process s
       (case post_patch s of
          None \<Rightarrow> patch_process X p [dummy_ev]
        | Some q \<Rightarrow> patch_process X q (patch_process X p [dummy_ev]))"

subsection \<open>process and process\_event\<close>

text \<open>
  \<^verbatim>\<open>Engine::process\<close>. The assertion that the buffer is empty is an error of the
  model when it fails. The control patch runs over the whole buffer, which then holds
  one copy of the event; the range \<open>r\<close> starts at the second copy, so the output of the
  control patch lies before the range and none of the later stages visits it. The last
  call names the member \<^verbatim>\<open>_buffer\<close> where the other stages name the parameter; the
  range still delimits the events that the sanitize unit visits, and in the real-time
  cycle the two buffers are the same object.
\<close>

definition process ::
  "Collab \<Rightarrow> Engine \<Rightarrow> MidiEvent list \<Rightarrow> MidiEvent \<Rightarrow> error + MidiEvent list \<times> Engine" where
  "process X s buffer ev =
     (if buffer \<noteq> [] then Inl AssertionFailed
      else
        let (matched, s1) = get_matching_patch s ev;
            buffer1 = (case ctrl_patch s1 of
                         None \<Rightarrow> buffer
                       | Some c \<Rightarrow> patch_process X c (buffer @ [ev]));
            r = [ev];
            r = (case pre_patch s1 of None \<Rightarrow> r | Some p \<Rightarrow> patch_process X p r)
        in (case matched of
              None \<Rightarrow> Inl NullPointer
            | Some p \<Rightarrow>
                (let r = patch_process X p r;
                     r = (case post_patch s1 of None \<Rightarrow> r | Some q \<Rightarrow> patch_process X q r)
                 in (case sanitize_patch_process s1 r of
                       Inl e \<Rightarrow> Inl e
                     | Inr r' \<Rightarrow> Inr (buffer1 @ r', s1)))))"

text \<open>
  The first statement of \<^verbatim>\<open>process_event\<close>: with no current patch, take
  \<^verbatim>\<open>_scenes.find(0)->second[0]->patch\<close>.
\<close>

definition adopt_scene_0 :: "Engine \<Rightarrow> error + Engine" where
  "adopt_scene_0 s =
     (case current_patch s of
        Some _ \<Rightarrow> Inr s
      | None \<Rightarrow>
          (case scene_at (scenes s) 0 0 of
             Inl e \<Rightarrow> Inl e
           | Inr scene \<Rightarrow> Inr (s\<lparr>current_patch := Some (patch scene)\<rparr>)))"

definition process_event ::
  "Collab \<Rightarrow> Engine \<Rightarrow> MidiEvent \<Rightarrow> error + MidiEvent list \<times> Engine" where
  "process_event X s ev =
     (case adopt_scene_0 s of
        Inl e \<Rightarrow> Inl e
      | Inr s1 \<Rightarrow>
          (case process X s1 [] ev of
             Inl e \<Rightarrow> Inl e
           | Inr (buffer, s2) \<Rightarrow> process_scene_switch X s2 buffer))"

text \<open>
  An outgoing event is valid when it passes the predicates of sanitize: the port and
  the channel are in range, the checks of its kind pass, and it is not a dummy event.
\<close>

definition valid_output :: "Engine \<Rightarrow> MidiEvent \<Rightarrow> bool" where
  "valid_output s e =
     (sanitize_ok s e \<and> \<not> port_out_of_range s e \<and> 0 \<le> channel e \<and> channel e \<le> 15
      \<and> type e \<noteq> MIDI_EVENT_DUMMY)"

text \<open>
  What the control patch puts at the head of the buffer in \<^verbatim>\<open>process\<close>.
\<close>

definition ctrl_output :: "Collab \<Rightarrow> Engine \<Rightarrow> MidiEvent \<Rightarrow> MidiEvent list" where
  "ctrl_output X s ev =
     (case ctrl_patch s of None \<Rightarrow> [] | Some c \<Rightarrow> patch_process X c [ev])"

subsection \<open>The other entry points that run the dispatcher\<close>

text \<open>
  One turn of the loop in \<^verbatim>\<open>run_cycle\<close>, for an event that the backend delivered:
  clear the buffer, process the event, handle a pending scene switch. The buffer that
  is returned is what goes to the backend.
\<close>

definition run_cycle_event ::
  "Collab \<Rightarrow> Engine \<Rightarrow> MidiEvent \<Rightarrow> error + MidiEvent list \<times> Engine" where
  "run_cycle_event X s ev =
     (case process X s [] ev of
        Inl e \<Rightarrow> Inl e
      | Inr (buffer, s1) \<Rightarrow> process_scene_switch X s1 buffer)"

text \<open>\<^verbatim>\<open>run_async\<close>: nothing without a backend, and nothing without a pending switch.\<close>

definition run_async :: "Collab \<Rightarrow> Engine \<Rightarrow> error + MidiEvent list \<times> Engine" where
  "run_async X s =
     (if backend s = None then Inr ([], s)
      else if new_scene s = - 1 \<and> new_subscene s = - 1 then Inr ([], s)
      else process_scene_switch X s [])"

subsection \<open>Sequences of calls\<close>

datatype Call =
    SwitchScene int int
  | ProcessEvent MidiEvent
  | RunCycle MidiEvent
  | RunAsync

fun run_calls :: "Collab \<Rightarrow> Engine \<Rightarrow> Call list \<Rightarrow> error + Engine" where
  "run_calls X s [] = Inr s"
| "run_calls X s (SwitchScene a b # cs) = run_calls X (switch_scene s a b) cs"
| "run_calls X s (ProcessEvent ev # cs) =
     (case process_event X s ev of
        Inl e \<Rightarrow> Inl e
      | Inr (out, s') \<Rightarrow> run_calls X s' cs)"
| "run_calls X s (RunCycle ev # cs) =
     (case run_cycle_event X s ev of
        Inl e \<Rightarrow> Inl e
      | Inr (out, s') \<Rightarrow> run_calls X s' cs)"
| "run_calls X s (RunAsync # cs) =
     (case run_async X s of
        Inl e \<Rightarrow> Inl e
      | Inr (out, s') \<Rightarrow> run_calls X s' cs)"

text \<open>The calls that hand the engine a note-off of a given key.\<close>

fun releases :: "NoteKey \<Rightarrow> Call \<Rightarrow> bool" where
  "releases k (SwitchScene a b) = False"
| "releases k (ProcessEvent ev) = (type ev = MIDI_EVENT_NOTEOFF \<and> make_notekey ev = k)"
| "releases k (RunCycle ev) = (type ev = MIDI_EVENT_NOTEOFF \<and> make_notekey ev = k)"
| "releases k RunAsync = False"

text \<open>The note-ons that a call hands the engine: each may add an entry to the table.\<close>

fun note_ons :: "Call \<Rightarrow> nat" where
  "note_ons (SwitchScene a b) = 0"
| "note_ons (ProcessEvent ev) = (if type ev = MIDI_EVENT_NOTEON then 1 else 0)"
| "note_ons (RunCycle ev) = (if type ev = MIDI_EVENT_NOTEON then 1 else 0)"
| "note_ons RunAsync = 0"

text \<open>
  The entry that the note-on table holds for key \<open>k\<close> once a note-on of that key
  has gone through \<^verbatim>\<open>get_matching_patch\<close> in state \<open>s\<close>: the entry that the
  table already held for the key, and the current patch when it held none.
\<close>

definition recorded_patch :: "Engine \<Rightarrow> NoteKey \<Rightarrow> Patch option" where
  "recorded_patch s k = (case noteon_patches s k of None \<Rightarrow> current_patch s | Some q \<Rightarrow> q)"

subsection \<open>A concrete setup\<close>

text \<open>
  Two scenes. Scene 1 has two subscenes, both with the exit patch 30; scene 2 has one
  subscene with the init patch 31. Patch 30 replaces its range by a control change 120,
  patch 31 by a control change 121, every other patch leaves its range as it is. The
  scripted handler does not call back. The backend has one output port. The note-on
  table holds up to 128 entries, the sustain table up to 16.
\<close>

definition ex_event :: "MidiEventType \<Rightarrow> MidiEvent" where
  "ex_event t = \<lparr> type = t, port = 0, channel = 0, data1 = 0, data2 = 0, sysex = None \<rparr>"

definition ex_ctrl :: "int \<Rightarrow> int \<Rightarrow> MidiEvent" where
  "ex_ctrl p v = (ex_event MIDI_EVENT_CTRL)\<lparr>ctrl_param := p, ctrl_value := v\<rparr>"

definition ex_noteon :: MidiEvent where
  "ex_noteon = (ex_event MIDI_EVENT_NOTEON)\<lparr>note_note := 60, note_velocity := 100\<rparr>"

definition ex_noteoff :: MidiEvent where
  "ex_noteoff = (ex_event MIDI_EVENT_NOTEOFF)\<lparr>note_note := 60\<rparr>"

definition ex_noteon_bad_port :: MidiEvent where
  "ex_noteon_bad_port = ex_noteon\<lparr>port := - 1\<rparr>"

definition ex_patch_process :: "Patch \<Rightarrow> MidiEvent list \<Rightarrow> MidiEvent list" where
  "ex_patch_process p r =
     (if p = 30 then [ex_ctrl 120 0] else if p = 31 then [ex_ctrl 121 0] else r)"

definition ex_callback :: "int \<Rightarrow> int \<Rightarrow> int \<times> int" where
  "ex_callback a b = (a, b)"

definition ex_collab :: Collab where
  "ex_collab = \<lparr> patch_process = ex_patch_process, scene_switch_callback = ex_callback \<rparr>"

text \<open>The tables of the setup never fill; their choice of an entry to evict is fixed.\<close>

definition ex_evict_note :: "(NoteKey \<rightharpoonup> Patch option) \<Rightarrow> NoteKey" where
  "ex_evict_note m = (0, 0, 0)"

definition ex_evict_sustain :: "(SustainKey \<rightharpoonup> Patch option) \<Rightarrow> SustainKey" where
  "ex_evict_sustain m = (0, 0)"

definition ex_scenes :: "int \<rightharpoonup> Scene list" where
  "ex_scenes =
     [1 \<mapsto> [\<lparr> patch = 10, init_patch = None, exit_patch = Some 30 \<rparr>,
             \<lparr> patch = 11, init_patch = None, exit_patch = Some 30 \<rparr>],
      2 \<mapsto> [\<lparr> patch = 20, init_patch = Some 31, exit_patch = None \<rparr>]]"

definition ex_engine :: Engine where
  "ex_engine = \<lparr> verbose = False, backend = Some 1, scenes = ex_scenes,
     ctrl_patch = None, pre_patch = None, post_patch = None,
     current_patch = Some 11, current_scene = 1, current_subscene = 1,
     new_scene = - 1, new_subscene = - 1,
     noteon_patches = Map.empty, sustain_patches = Map.empty,
     max_simultaneous_notes = 128, max_sustain_pedals = 16,
     evict_note = ex_evict_note, evict_sustain = ex_evict_sustain \<rparr>"

text \<open>The engine after a switch to scene 2.\<close>

definition ex_engine_scene2 :: Engine where
  "ex_engine_scene2 = ex_engine\<lparr>current_patch := Some 20, current_scene := 2,
     current_subscene := 0\<rparr>"

text \<open>
  The engine in subscene 1 of scene 1 (patch 11) while the note of \<open>ex_noteon\<close> is
  still held from subscene 0 (patch 10).
\<close>

definition ex_engine_held :: Engine where
  "ex_engine_held = ex_engine\<lparr>noteon_patches := [make_notekey ex_noteon \<mapsto> Some 10]\<rparr>"

text \<open>The engine in subscene 0 of scene 1 (patch 10), with nothing held.\<close>

definition ex_engine_subscene0 :: Engine where
  "ex_engine_subscene0 = ex_engine\<lparr>current_patch := Some 10, current_subscene := 0\<rparr>"

text \<open>The engine with the control patch 1 set, which leaves its range as it is.\<close>

definition ex_engine_ctrl :: Engine where
  "ex_engine_ctrl = ex_engine\<lparr>ctrl_patch := Some 1\<rparr>"

text \<open>The engine before any scene switch: no current patch, and no scene 0.\<close>

definition ex_engine_fresh :: Engine where
  "ex_engine_fresh = ex_engine\<lparr>current_patch := None, current_scene := - 1,
     current_subscene := - 1\<rparr>"

section \<open>Properties of sanitize\_event\<close>

lemma port_out_of_range_port:
  "port e' = port e \<Longrightarrow> port_out_of_range s e' = port_out_of_range s e"
  by (simp add: port_out_of_range_def cong: option.case_cong)

lemma port_out_of_range_update [simp]:
  "port_out_of_range s (e\<lparr>data2 := v\<rparr>) = port_out_of_range s e"
  by (simp add: port_out_of_range_def cong: option.case_cong)

lemma ex_engine_fields [simp]:
  "verbose ex_engine = False" "backend ex_engine = Some 1" "scenes ex_engine = ex_scenes"
  "ctrl_patch ex_engine = None" "pre_patch ex_engine = None" "post_patch ex_engine = None"
  "current_patch ex_engine = Some 11" "current_scene ex_engine = 1"
  "current_subscene ex_engine = 1" "new_scene ex_engine = - 1" "new_subscene ex_engine = - 1"
  "noteon_patches ex_engine = Map.empty" "sustain_patches ex_engine = Map.empty"
  "max_simultaneous_notes ex_engine = 128" "max_sustain_pedals ex_engine = 16"
  "evict_note ex_engine = ex_evict_note" "evict_sustain ex_engine = ex_evict_sustain"
  by (simp_all add: ex_engine_def)

text \<open>
  Claim C8. A pitch bend with a port and a channel in range is kept, and its value
  comes out clamped to the range from -8192 to 8191; the value 20000 comes out as 8191.
\<close>

theorem sanitize_event_pitchbend_clamp:
  assumes "type ev = MIDI_EVENT_PITCHBEND"
    and "\<not> port_out_of_range s ev"
    and "0 \<le> channel ev" and "channel ev \<le> 15"
  shows "sanitize_event s ev =
           Inr (True, ev\<lparr>ctrl_value := max (- 8192) (min 8191 (ctrl_value ev))\<rparr>)
         \<and> - 8192 \<le> max (- 8192) (min 8191 (ctrl_value ev))
         \<and> max (- 8192) (min 8191 (ctrl_value ev)) \<le> 8191
         \<and> (ctrl_value ev = 20000 \<longrightarrow> max (- 8192) (min 8191 (ctrl_value ev)) = 8191)"
  using assms by (simp add: sanitize_event_def)

text \<open>
  The witness of C8: the pitch bend 20000 on port 0 and channel 0, with one output
  port, comes out as the pitch bend 8191.
\<close>

theorem sanitize_event_pitchbend_clamp_witness:
  "sanitize_event ex_engine ((ex_event MIDI_EVENT_PITCHBEND)\<lparr>ctrl_value := 20000\<rparr>) =
     Inr (True, (ex_event MIDI_EVENT_PITCHBEND)\<lparr>ctrl_value := 8191\<rparr>)"
  using sanitize_event_pitchbend_clamp
    [of "(ex_event MIDI_EVENT_PITCHBEND)\<lparr>ctrl_value := 20000\<rparr>" ex_engine]
  by (simp add: ex_event_def port_out_of_range_def)

text \<open>
  Claim C9. The branch of \<^verbatim>\<open>sanitize_event\<close> that drops a note-on of negative
  velocity is never taken, since the velocity is clamped to the range from 0 to 127
  before the test: the code for notes equals the same code without that branch. So a
  note-on with port, channel and note number in range is kept, and with velocity 0 it
  comes out unchanged, still a note-on.
\<close>

theorem sanitize_event_noteon_kept:
  assumes "type ev = MIDI_EVENT_NOTEON"
    and "\<not> port_out_of_range s ev"
    and "0 \<le> channel ev" and "channel ev \<le> 15"
    and "0 \<le> note_note ev" and "note_note ev \<le> 127"
  shows "sanitize_event s ev =
           Inr (True, ev\<lparr>note_velocity := max 0 (min 127 (note_velocity ev))\<rparr>)
         \<and> type (ev\<lparr>note_velocity := max 0 (min 127 (note_velocity ev))\<rparr>) = MIDI_EVENT_NOTEON
         \<and> \<not> note_velocity (ev\<lparr>note_velocity := max 0 (min 127 (note_velocity ev))\<rparr>) < 0
         \<and> (note_velocity ev = 0 \<longrightarrow> sanitize_event s ev = Inr (True, ev))
         \<and> (\<forall>e. sanitize_note e =
                (if note_note e < 0 \<or> note_note e > 127 then (False, e)
                 else (True, e\<lparr>note_velocity := max 0 (min 127 (note_velocity e))\<rparr>)))"
  using assms by (simp add: sanitize_event_def sanitize_note_def Let_def)

text \<open>The witness of C9: a note-on of velocity 0 is kept as it is.\<close>

theorem sanitize_event_noteon_kept_witness:
  "sanitize_event ex_engine (ex_noteon\<lparr>note_velocity := 0\<rparr>) =
     Inr (True, ex_noteon\<lparr>note_velocity := 0\<rparr>)
   \<and> type (ex_noteon\<lparr>note_velocity := 0\<rparr>) = MIDI_EVENT_NOTEON"
  using sanitize_event_noteon_kept [of "ex_noteon\<lparr>note_velocity := 0\<rparr>" ex_engine]
  by (simp add: ex_noteon_def ex_event_def port_out_of_range_def)

text \<open>
  Claim C3. A control change with port, channel and controller number in range, and
  an aftertouch event with port and channel in range, is kept, and its control value
  comes out clamped to the range from 0 to 127: the result is the event with its own
  control value replaced by the clamped one. The source reads the value under the
  name \<^verbatim>\<open>ev.note.velocity\<close>, which names the same slot of the event as
  \<^verbatim>\<open>ev.ctrl.value\<close>.
\<close>

theorem sanitize_event_ctrl_clamp:
  assumes "type ev = MIDI_EVENT_CTRL \<and> 0 \<le> ctrl_param ev \<and> ctrl_param ev \<le> 127
           \<or> type ev = MIDI_EVENT_AFTERTOUCH"
    and "\<not> port_out_of_range s ev"
    and "0 \<le> channel ev" and "channel ev \<le> 15"
  shows "sanitize_event s ev =
           Inr (True, ev\<lparr>ctrl_value := max 0 (min 127 (ctrl_value ev))\<rparr>)
         \<and> 0 \<le> max 0 (min 127 (ctrl_value ev))
         \<and> max 0 (min 127 (ctrl_value ev)) \<le> 127"
proof -
  from assms(1) have "sanitize_event s ev =
      Inr (True, ev\<lparr>ctrl_value := max 0 (min 127 (ctrl_value ev))\<rparr>)"
  proof
    assume "type ev = MIDI_EVENT_CTRL \<and> 0 \<le> ctrl_param ev \<and> ctrl_param ev \<le> 127"
    with assms(2-4) show ?thesis by (simp add: sanitize_event_def)
  next
    assume "type ev = MIDI_EVENT_AFTERTOUCH"
    with assms(2-4) show ?thesis by (simp add: sanitize_event_def)
  qed
  then show ?thesis by simp
qed

text \<open>
  The witness of C3: the control change 7 with value 200 comes out with value 127,
  and the aftertouch event with value -5 comes out with value 0.
\<close>

theorem sanitize_event_ctrl_clamp_witness:
  "sanitize_event ex_engine (ex_ctrl 7 200) = Inr (True, ex_ctrl 7 127)
   \<and> sanitize_event ex_engine ((ex_event MIDI_EVENT_AFTERTOUCH)\<lparr>ctrl_value := - 5\<rparr>) =
       Inr (True, (ex_event MIDI_EVENT_AFTERTOUCH)\<lparr>ctrl_value := 0\<rparr>)"
  using sanitize_event_ctrl_clamp [of "ex_ctrl 7 200" ex_engine]
    sanitize_event_ctrl_clamp [of "(ex_event MIDI_EVENT_AFTERTOUCH)\<lparr>ctrl_value := - 5\<rparr>" ex_engine]
  by (simp add: ex_ctrl_def ex_event_def port_out_of_range_def)

section \<open>Properties of get\_matching\_patch\<close>

lemma get_matching_patch_fields [simp]:
  "verbose (snd (get_matching_patch s ev)) = verbose s"
  "backend (snd (get_matching_patch s ev)) = backend s"
  "ctrl_patch (snd (get_matching_patch s ev)) = ctrl_patch s"
  "pre_patch (snd (get_matching_patch s ev)) = pre_patch s"
  "post_patch (snd (get_matching_patch s ev)) = post_patch s"
  "scenes (snd (get_matching_patch s ev)) = scenes s"
  "new_scene (snd (get_matching_patch s ev)) = new_scene s"
  "new_subscene (snd (get_matching_patch s ev)) = new_subscene s"
  "max_simultaneous_notes (snd (get_matching_patch s ev)) = max_simultaneous_notes s"
  "evict_note (snd (get_matching_patch s ev)) = evict_note s"
  by (simp_all add: get_matching_patch_def split: option.splits)

text \<open>
  An entry of the note-on table stays through \<^verbatim>\<open>get_matching_patch\<close> unless
  the event is the note-off of its key, or a note-on of a new key that finds the table
  full and makes it evict that entry.
\<close>

lemma get_matching_patch_keeps_entry:
  assumes "noteon_patches s k = Some q"
    and "\<not> (type ev = MIDI_EVENT_NOTEOFF \<and> make_notekey ev = k)"
    and "type ev = MIDI_EVENT_NOTEON \<Longrightarrow>
           card (dom (noteon_patches s)) < max_simultaneous_notes s"
  shows "noteon_patches (snd (get_matching_patch s ev)) k = Some q"
  using assms
  by (auto simp: get_matching_patch_def table_insert_def split: option.splits)

text \<open>The number of entries grows by at most one, and only with a note-on.\<close>

lemma card_dom_upd_le:
  "card (dom (m(k \<mapsto> v))) \<le> Suc (card (dom m))"
  by (cases "finite (dom m)") (simp_all add: card_insert_if)

lemma card_dom_del_le:
  "card (dom (m(k := None))) \<le> card (dom m)"
  by (cases "finite (dom m)") (simp_all add: card_Diff1_le)

lemma get_matching_patch_card:
  assumes "type ev = MIDI_EVENT_NOTEON \<Longrightarrow>
             card (dom (noteon_patches s)) < max_simultaneous_notes s"
  shows "card (dom (noteon_patches (snd (get_matching_patch s ev))))
           \<le> card (dom (noteon_patches s)) + (if type ev = MIDI_EVENT_NOTEON then 1 else 0)"
proof (cases "type ev = MIDI_EVENT_NOTEON")
  case True
  with assms show ?thesis
    using card_dom_upd_le [of "noteon_patches s" "make_notekey ev" "current_patch s"]
    by (auto simp: get_matching_patch_def table_insert_def split: option.splits)
next
  case False
  then show ?thesis
    using card_dom_del_le [of "noteon_patches s" "make_notekey ev"]
    by (auto simp: get_matching_patch_def split: option.splits)
qed

text \<open>
  Claim C7. A note-off whose key has no entry in the note-on table is matched to the
  current patch and leaves the engine, with both tables, as it was. Whatever the
  table holds, a note-off only removes the entry of its key: it adds no entry to the
  note-on table and does not touch the sustain table.
\<close>

theorem noteoff_unmatched:
  assumes "type ev = MIDI_EVENT_NOTEOFF"
  shows "(noteon_patches s (make_notekey ev) = None \<longrightarrow>
            get_matching_patch s ev = (current_patch s, s))
         \<and> noteon_patches (snd (get_matching_patch s ev)) =
             (noteon_patches s)(make_notekey ev := None)
         \<and> dom (noteon_patches (snd (get_matching_patch s ev))) \<subseteq> dom (noteon_patches s)
         \<and> sustain_patches (snd (get_matching_patch s ev)) = sustain_patches s"
proof -
  have a: "noteon_patches s (make_notekey ev) = None \<Longrightarrow>
      get_matching_patch s ev = (current_patch s, s)"
    using assms by (simp add: get_matching_patch_def)
  have b: "noteon_patches (snd (get_matching_patch s ev)) =
      (noteon_patches s)(make_notekey ev := None)"
    using assms by (auto simp: get_matching_patch_def split: option.splits)
  have c: "sustain_patches (snd (get_matching_patch s ev)) = sustain_patches s"
    using assms by (simp add: get_matching_patch_def split: option.splits)
  have "dom (noteon_patches (snd (get_matching_patch s ev))) \<subseteq> dom (noteon_patches s)"
    unfolding b by auto
  with a b c show ?thesis by blast
qed

text \<open>
  The witness of C7: with an empty note-on table, the note-off of note 60 is matched
  to the current patch 11 and the engine stays as it was.
\<close>

theorem noteoff_unmatched_witness:
  "get_matching_patch ex_engine ex_noteoff = (Some 11, ex_engine)
   \<and> noteon_patches ex_engine (make_notekey ex_noteoff) = None"
proof -
  have t: "type ex_noteoff = MIDI_EVENT_NOTEOFF"
    by (simp add: ex_noteoff_def ex_event_def)
  from noteoff_unmatched [OF t, of ex_engine] show ?thesis by simp
qed

section \<open>What the sanitize patch lets through\<close>

text \<open>\<^verbatim>\<open>sanitize_event\<close> reads two members of the engine only.\<close>

lemma sanitize_event_cong:
  "verbose t = verbose s \<Longrightarrow> backend t = backend s \<Longrightarrow> sanitize_event t ev = sanitize_event s ev"
  by (simp add: sanitize_event_def port_out_of_range_def)

lemma sanitize_patch_process_cong:
  "verbose t = verbose s \<Longrightarrow> backend t = backend s \<Longrightarrow>
     sanitize_patch_process t r = sanitize_patch_process s r"
  by (induction r) (simp_all add: sanitize_event_cong [of t s] cong: sum.case_cong prod.case_cong)

lemma valid_output_cong:
  "verbose t = verbose s \<Longrightarrow> backend t = backend s \<Longrightarrow> valid_output t e = valid_output s e"
  by (simp add: valid_output_def sanitize_ok_def sanitize_event_cong [of t s] port_out_of_range_def)

lemma sanitize_event_kept_fields:
  assumes "sanitize_event s ev = Inr (True, ev')"
  shows "\<not> port_out_of_range s ev \<and> 0 \<le> channel ev \<and> channel ev \<le> 15
         \<and> type ev \<noteq> MIDI_EVENT_DUMMY
         \<and> port ev' = port ev \<and> channel ev' = channel ev \<and> type ev' = type ev"
proof -
  from assms have p: "\<not> port_out_of_range s ev" and c: "0 \<le> channel ev" "channel ev \<le> 15"
    by (auto simp: sanitize_event_def split: if_splits)
  from assms p c have "type ev \<noteq> MIDI_EVENT_DUMMY"
    by (auto simp: sanitize_event_def)
  moreover from assms p c have "port ev' = port ev \<and> channel ev' = channel ev \<and> type ev' = type ev"
    by (cases "type ev")
       (auto simp: sanitize_event_def sanitize_note_def sanitize_sysex_def Let_def
             split: if_splits option.splits)
  ultimately show ?thesis using p c by simp
qed

lemma clamp_idem:
  "max (a::int) (min b (max a (min b x))) = max a (min b x)"
  by (simp add: max_def min_def)

lemma sanitize_note_idem:
  "sanitize_note ev = (True, ev') \<Longrightarrow> sanitize_note ev' = (True, ev')"
  by (auto simp: sanitize_note_def Let_def clamp_idem split: if_splits)

lemma sanitize_note_fields:
  "sanitize_note ev = (k, ev') \<Longrightarrow> port ev' = port ev \<and> channel ev' = channel ev \<and> type ev' = type ev"
  by (auto simp: sanitize_note_def Let_def split: if_splits)

lemma sanitize_event_idem_note:
  assumes "sanitize_event s ev = Inr (True, ev')"
    and "type ev = MIDI_EVENT_NOTEON \<or> type ev = MIDI_EVENT_NOTEOFF"
  shows "sanitize_event s ev' = Inr (True, ev')"
proof -
  from assms have p: "\<not> port_out_of_range s ev" and c: "0 \<le> channel ev" "channel ev \<le> 15"
    by (auto simp: sanitize_event_def split: if_splits)
  from assms p c have n: "sanitize_note ev = (True, ev')"
    by (auto simp: sanitize_event_def)
  note i = sanitize_note_idem [OF n] and f = sanitize_note_fields [OF n]
  have "\<not> port_out_of_range s ev'"
    using p f by (simp add: port_out_of_range_port [of ev' ev])
  then show ?thesis
    using i f c assms(2) by (auto simp: sanitize_event_def)
qed

lemma sanitize_event_idem_sysex:
  assumes "sanitize_event s ev = Inr (True, ev')"
    and "type ev = MIDI_EVENT_SYSEX"
  shows "sanitize_event s ev' = Inr (True, ev')"
  using assms
  by (auto simp: sanitize_event_def sanitize_sysex_def split: if_splits option.splits)

text \<open>An event that sanitize has kept is kept again, unchanged.\<close>

lemma sanitize_event_idem:
  assumes "sanitize_event s ev = Inr (True, ev')"
  shows "sanitize_event s ev' = Inr (True, ev')"
proof -
  from assms have p: "\<not> port_out_of_range s ev" and c: "0 \<le> channel ev" "channel ev \<le> 15"
    by (auto simp: sanitize_event_def split: if_splits)
  show ?thesis
  proof (cases "type ev")
    case MIDI_EVENT_NOTEON
    with assms show ?thesis by (simp add: sanitize_event_idem_note)
  next
    case MIDI_EVENT_NOTEOFF
    with assms show ?thesis by (simp add: sanitize_event_idem_note)
  next
    case MIDI_EVENT_CTRL
    from assms p c MIDI_EVENT_CTRL have q: "0 \<le> ctrl_param ev" "ctrl_param ev \<le> 127"
      by (auto simp: sanitize_event_def split: if_splits)
    from assms p c q MIDI_EVENT_CTRL
    have e: "ev' = ev\<lparr>ctrl_value := max 0 (min 127 (note_velocity ev))\<rparr>"
      by (simp add: sanitize_event_def)
    show ?thesis
      unfolding e using p c q MIDI_EVENT_CTRL by (simp add: sanitize_event_def)
  next
    case MIDI_EVENT_PITCHBEND
    from assms p c MIDI_EVENT_PITCHBEND
    have e: "ev' = ev\<lparr>ctrl_value := max (- 8192) (min 8191 (ctrl_value ev))\<rparr>"
      by (simp add: sanitize_event_def)
    show ?thesis
      unfolding e using p c MIDI_EVENT_PITCHBEND by (simp add: sanitize_event_def clamp_idem)
  next
    case MIDI_EVENT_AFTERTOUCH
    from assms p c MIDI_EVENT_AFTERTOUCH
    have e: "ev' = ev\<lparr>ctrl_value := max 0 (min 127 (note_velocity ev))\<rparr>"
      by (simp add: sanitize_event_def)
    show ?thesis
      unfolding e using p c MIDI_EVENT_AFTERTOUCH by (simp add: sanitize_event_def)
  next
    case MIDI_EVENT_PROGRAM
    from assms p c MIDI_EVENT_PROGRAM have q: "0 \<le> ctrl_value ev" "ctrl_value ev \<le> 127"
      by (auto simp: sanitize_event_def split: if_splits)
    from assms p c q MIDI_EVENT_PROGRAM have e: "ev' = ev"
      by (simp add: sanitize_event_def)
    show ?thesis
      unfolding e using p c q MIDI_EVENT_PROGRAM by (simp add: sanitize_event_def)
  next
    case MIDI_EVENT_SYSEX
    with assms show ?thesis by (simp add: sanitize_event_idem_sysex)
  qed (use assms p c in \<open>simp_all add: sanitize_event_def\<close>)
qed

lemma sanitize_event_kept_valid:
  assumes "sanitize_event s ev = Inr (True, ev')"
  shows "valid_output s ev'"
proof -
  from sanitize_event_kept_fields [OF assms]
  have "\<not> port_out_of_range s ev'" "0 \<le> channel ev'" "channel ev' \<le> 15"
    "type ev' \<noteq> MIDI_EVENT_DUMMY"
    by (simp_all add: port_out_of_range_port [of ev' ev])
  then show ?thesis
    using sanitize_event_idem [OF assms] by (simp add: valid_output_def sanitize_ok_def)
qed

lemma sanitize_patch_process_valid:
  "sanitize_patch_process s r = Inr r' \<Longrightarrow> list_all (valid_output s) r'"
proof (induction r arbitrary: r')
  case Nil
  then show ?case by simp
next
  case (Cons ev r)
  from Cons.prems obtain keep ev' r0 where
    e: "sanitize_event s ev = Inr (keep, ev')" and
    r: "sanitize_patch_process s r = Inr r0" and
    o: "r' = (if keep then ev' # r0 else r0)"
    by (auto split: sum.splits prod.splits)
  have "list_all (valid_output s) r0" using Cons.IH r by simp
  moreover have "keep \<Longrightarrow> valid_output s ev'"
    using e by (auto intro: sanitize_event_kept_valid)
  ultimately show ?case using o by simp
qed

section \<open>Properties of the scene switch\<close>

lemma switch_scene_fields [simp]:
  "noteon_patches (switch_scene s a b) = noteon_patches s"
  "sustain_patches (switch_scene s a b) = sustain_patches s"
  "scenes (switch_scene s a b) = scenes s"
  "current_scene (switch_scene s a b) = current_scene s"
  "current_subscene (switch_scene s a b) = current_subscene s"
  "current_patch (switch_scene s a b) = current_patch s"
  "ctrl_patch (switch_scene s a b) = ctrl_patch s"
  "post_patch (switch_scene s a b) = post_patch s"
  "verbose (switch_scene s a b) = verbose s"
  "backend (switch_scene s a b) = backend s"
  "max_simultaneous_notes (switch_scene s a b) = max_simultaneous_notes s"
  by (simp_all add: switch_scene_def Let_def)

lemma switch_scene_pending:
  "new_scene (switch_scene s a b) = (if a \<noteq> - 1 then a else new_scene s)"
  "new_subscene (switch_scene s a b) = (if b \<noteq> - 1 then b else new_subscene s)"
  by (simp_all add: switch_scene_def Let_def)

lemma call_callback_fields [simp]:
  "noteon_patches (call_scene_switch_callback X s) = noteon_patches s"
  "sustain_patches (call_scene_switch_callback X s) = sustain_patches s"
  "scenes (call_scene_switch_callback X s) = scenes s"
  "current_scene (call_scene_switch_callback X s) = current_scene s"
  "current_subscene (call_scene_switch_callback X s) = current_subscene s"
  "current_patch (call_scene_switch_callback X s) = current_patch s"
  "post_patch (call_scene_switch_callback X s) = post_patch s"
  "verbose (call_scene_switch_callback X s) = verbose s"
  "backend (call_scene_switch_callback X s) = backend s"
  by (simp_all add: call_scene_switch_callback_def split: prod.splits)

lemma mark_done_fields [simp]:
  "new_scene (mark_done s) = - 1" "new_subscene (mark_done s) = - 1"
  "current_scene (mark_done s) = current_scene s"
  "current_subscene (mark_done s) = current_subscene s"
  "current_patch (mark_done s) = current_patch s"
  "noteon_patches (mark_done s) = noteon_patches s"
  by (simp_all add: mark_done_def)

lemma scene_at_Inr:
  "scene_at m i j = Inr sc \<Longrightarrow>
     \<exists>subs. m i = Some subs \<and> 0 \<le> j \<and> j < int (length subs) \<and> sc = subs ! nat j"
  by (auto simp: scene_at_def split: option.splits if_splits)

lemma process_dummy_eq:
  "process_dummy X s p buffer =
     (case dummy_output X s p of Inl e \<Rightarrow> Inl e | Inr out \<Rightarrow> Inr (buffer @ out))"
  by (simp add: process_dummy_def dummy_output_def Let_def split: option.splits)

lemma dummy_output_cong:
  "verbose t = verbose s \<Longrightarrow> backend t = backend s \<Longrightarrow> post_patch t = post_patch s \<Longrightarrow>
     dummy_output X t p = dummy_output X s p"
  by (simp add: dummy_output_def sanitize_patch_process_cong [of t s])

lemma process_dummy_cong:
  "verbose t = verbose s \<Longrightarrow> backend t = backend s \<Longrightarrow> post_patch t = post_patch s \<Longrightarrow>
     process_dummy X t p b = process_dummy X s p b"
  by (simp add: process_dummy_eq dummy_output_cong [of t s])

text \<open>
  A switch whose target scene is missing, or whose subscene number is not below the
  number of subscenes of the target scene, changes nothing but the pending request,
  which it clears.
\<close>

lemma process_scene_switch_invalid_target:
  assumes "\<not> (new_scene s0 = - 1 \<and> new_subscene s0 = - 1)"
    and "s = call_scene_switch_callback X s0"
    and "scenes s (scene_num s) = None
         \<or> (\<exists>subs. scenes s (scene_num s) = Some subs \<and> int (length subs) \<le> subscene_num s)"
  shows "process_scene_switch X s0 buffer = Inr (buffer, mark_done s)
         \<and> current_scene (mark_done s) = current_scene s0
         \<and> current_subscene (mark_done s) = current_subscene s0
         \<and> current_patch (mark_done s) = current_patch s0
         \<and> new_scene (mark_done s) = - 1 \<and> new_subscene (mark_done s) = - 1"
  using assms by (auto simp: process_scene_switch_def Let_def)

text \<open>A switch whose target exists runs the exit patch, then the init patch.\<close>

lemma process_scene_switch_valid:
  assumes pend: "\<not> (new_scene s0 = - 1 \<and> new_subscene s0 = - 1)"
    and s: "s = call_scene_switch_callback X s0"
    and tgt: "scene_at (scenes s) (scene_num s) (subscene_num s) = Inr scene"
  shows "process_scene_switch X s0 buffer =
           (case run_exit_patch X s buffer of
              Inl e \<Rightarrow> Inl e
            | Inr buffer1 \<Rightarrow>
                (case run_init_patch X s scene buffer1 of
                   Inl e \<Rightarrow> Inl e
                 | Inr buffer2 \<Rightarrow>
                     Inr (buffer2,
                          mark_done (s\<lparr>current_patch := Some (patch scene),
                            current_scene := scene_num s,
                            current_subscene := subscene_num s\<rparr>))))"
proof -
  from scene_at_Inr [OF tgt] obtain subs where
    "scenes s (scene_num s) = Some subs" "0 \<le> subscene_num s"
    "subscene_num s < int (length subs)" "scene = subs ! nat (subscene_num s)"
    by blast
  with pend show ?thesis
    unfolding s by (auto simp: process_scene_switch_def Let_def cong: sum.case_cong)
qed

text \<open>The scene switch reads neither the control patch nor the pre patch.\<close>

lemma process_scene_switch_ignores_ctrl_pre:
  "map_sum id fst (process_scene_switch X (s0\<lparr>ctrl_patch := c, pre_patch := q\<rparr>) buffer) =
     map_sum id fst (process_scene_switch X s0 buffer)"
proof -
  let ?u = "\<lambda>t. t\<lparr>ctrl_patch := c, pre_patch := q\<rparr>"
  let ?s = "call_scene_switch_callback X s0"
  have cb: "call_scene_switch_callback X (?u s0) = ?u ?s"
    by (simp add: call_scene_switch_callback_def split: prod.splits)
  have n: "scene_num (?u ?s) = scene_num ?s" "subscene_num (?u ?s) = subscene_num ?s"
    by (simp_all add: scene_num_def subscene_num_def)
  have x: "run_exit_patch X (?u ?s) b = run_exit_patch X ?s b" for b
    by (simp add: run_exit_patch_def process_dummy_cong [of "?u ?s" ?s]
        cong: sum.case_cong option.case_cong)
  have i: "run_init_patch X (?u ?s) sc b = run_init_patch X ?s sc b" for sc b
    by (simp add: run_init_patch_def process_dummy_cong [of "?u ?s" ?s] cong: option.case_cong)
  show ?thesis
    by (simp add: process_scene_switch_def Let_def cb n x i
        split: option.splits sum.splits)
qed

subsection \<open>The concrete setup, evaluated\<close>

lemma ex_collab_simps [simp]:
  "patch_process ex_collab = ex_patch_process"
  "scene_switch_callback ex_collab = ex_callback"
  by (simp_all add: ex_collab_def)

lemma ex_scenes_simps [simp]:
  "ex_scenes 1 = Some [\<lparr> patch = 10, init_patch = None, exit_patch = Some 30 \<rparr>,
                       \<lparr> patch = 11, init_patch = None, exit_patch = Some 30 \<rparr>]"
  "ex_scenes 2 = Some [\<lparr> patch = 20, init_patch = Some 31, exit_patch = None \<rparr>]"
  "ex_scenes 0 = None"
  "card (dom ex_scenes) = 2"
  by (simp_all add: ex_scenes_def)

lemma ex_callback_neutral:
  "call_scene_switch_callback ex_collab s = s"
  by (simp add: call_scene_switch_callback_def ex_callback_def)

lemma sanitize_ex_ctrl [simp]:
  "0 \<le> p \<Longrightarrow> p \<le> 127 \<Longrightarrow> verbose s = False \<Longrightarrow> backend s = Some 1 \<Longrightarrow>
     sanitize_event s (ex_ctrl p 0) = Inr (True, ex_ctrl p 0)"
  by (simp add: sanitize_event_def ex_ctrl_def ex_event_def port_out_of_range_def)

lemma ex_dummy_output:
  assumes "verbose s = False" "backend s = Some 1" "post_patch s = None"
  shows "dummy_output ex_collab s 30 = Inr [ex_ctrl 120 0]"
    and "dummy_output ex_collab s 31 = Inr [ex_ctrl 121 0]"
  using assms
  by (simp_all add: dummy_output_def ex_patch_process_def)

lemma ex_run_exit_patch:
  assumes "verbose s = False" "backend s = Some 1" "post_patch s = None"
    and "scenes s = ex_scenes" "current_scene s = 1"
    and "current_subscene s = 0 \<or> current_subscene s = 1"
  shows "run_exit_patch ex_collab s buffer = Inr (buffer @ [ex_ctrl 120 0])"
  using assms
  by (auto simp: run_exit_patch_def scene_at_def process_dummy_eq ex_dummy_output)

text \<open>From subscene 1 of scene 1, with any note-on table: the switch to scene 2.\<close>

lemma ex_switch_to_2:
  "process_scene_switch ex_collab (switch_scene (ex_engine\<lparr>noteon_patches := m\<rparr>) 2 (- 1)) buffer =
     Inr (buffer @ [ex_ctrl 120 0, ex_ctrl 121 0],
          ex_engine_scene2\<lparr>noteon_patches := m\<rparr>)"
proof -
  let ?t = "switch_scene (ex_engine\<lparr>noteon_patches := m\<rparr>) 2 (- 1)"
  let ?sc = "\<lparr> patch = 20, init_patch = Some 31, exit_patch = None \<rparr>"
  have p: "\<not> (new_scene ?t = - 1 \<and> new_subscene ?t = - 1)"
    by (simp add: switch_scene_pending)
  have c: "?t = call_scene_switch_callback ex_collab ?t"
    by (simp add: ex_callback_neutral)
  have n: "scene_num ?t = 2" "subscene_num ?t = 0"
    by (simp_all add: scene_num_def subscene_num_def switch_scene_pending)
  have g: "scene_at (scenes ?t) (scene_num ?t) (subscene_num ?t) = Inr ?sc"
    by (simp add: n scene_at_def)
  have x: "run_exit_patch ex_collab ?t buffer = Inr (buffer @ [ex_ctrl 120 0])"
    by (rule ex_run_exit_patch) simp_all
  have i: "run_init_patch ex_collab ?t ?sc b = Inr (b @ [ex_ctrl 121 0])" for b
    by (simp add: run_init_patch_def process_dummy_eq ex_dummy_output)
  have m: "mark_done (?t\<lparr>current_patch := Some 20,
       current_scene := scene_num ?t, current_subscene := subscene_num ?t\<rparr>) =
     ex_engine_scene2\<lparr>noteon_patches := m\<rparr>"
    by (simp add: scene_num_def subscene_num_def mark_done_def switch_scene_def ex_engine_def
        ex_engine_scene2_def)
  show ?thesis
    by (simp add: process_scene_switch_valid [OF p c g] x i m)
qed

text \<open>From subscene 1 of scene 1: a switch that names subscene 0, or no subscene.\<close>

lemma ex_switch_to_subscene_0:
  assumes "(a, b) = (1, - 1) \<or> (a, b) = (- 1, 0)"
  shows "process_scene_switch ex_collab (switch_scene ex_engine a b) [] =
     Inr ([ex_ctrl 120 0], ex_engine\<lparr>current_patch := Some 10, current_subscene := 0\<rparr>)"
proof -
  let ?t = "switch_scene ex_engine a b"
  let ?sc = "\<lparr> patch = 10, init_patch = None, exit_patch = Some 30 \<rparr>"
  have p: "\<not> (new_scene ?t = - 1 \<and> new_subscene ?t = - 1)"
    using assms by (auto simp: switch_scene_pending)
  have c: "?t = call_scene_switch_callback ex_collab ?t"
    by (simp add: ex_callback_neutral)
  have n: "scene_num ?t = 1" "subscene_num ?t = 0"
    using assms by (auto simp: scene_num_def subscene_num_def switch_scene_pending)
  have g: "scene_at (scenes ?t) (scene_num ?t) (subscene_num ?t) = Inr ?sc"
    by (simp add: n scene_at_def)
  have x: "run_exit_patch ex_collab ?t [] = Inr ([] @ [ex_ctrl 120 0])"
    by (rule ex_run_exit_patch) simp_all
  have i: "run_init_patch ex_collab ?t ?sc b = Inr b" for b
    by (simp add: run_init_patch_def)
  have m: "mark_done (?t\<lparr>current_patch := Some 10,
       current_scene := scene_num ?t, current_subscene := subscene_num ?t\<rparr>) =
     ex_engine\<lparr>current_patch := Some 10, current_subscene := 0\<rparr>"
    using assms
    by (auto simp: scene_num_def subscene_num_def mark_done_def switch_scene_def ex_engine_def)
  show ?thesis
    by (simp add: process_scene_switch_valid [OF p c g] x i m)
qed

lemma ex_engine_noteon_empty:
  "ex_engine\<lparr>noteon_patches := Map.empty\<rparr> = ex_engine"
  "ex_engine_scene2\<lparr>noteon_patches := Map.empty\<rparr> = ex_engine_scene2"
  by (simp_all add: ex_engine_scene2_def ex_engine_def)

subsection \<open>The claims about the scene switch\<close>

text \<open>
  Claim C5, evaluated. With two subscenes in scene 1, the request for subscene -2 of
  scene 1 passes the test of the switch, since 2 is greater than -2, and the switch
  then reads the vector of subscenes at index -2, outside the vector. It does not
  leave the state unchanged and clear the request.
\<close>

theorem process_scene_switch_negative_subscene:
  "process_scene_switch ex_collab (switch_scene ex_engine 1 (- 2)) [] = Inl IndexOutOfRange"
  by (simp add: process_scene_switch_def ex_callback_neutral scene_num_def subscene_num_def
      switch_scene_pending)

text \<open>
  Claim C6. On a switch whose target exists, from a subscene with an exit patch to
  one with an init patch, the buffer grows by what the dummy event becomes through the
  exit patch, then the post patch if one is set, then the sanitize patch, followed by
  what a second dummy event becomes through the init patch, the post patch and the
  sanitize patch. The events of the exit patch come first. Neither the control patch
  nor the pre patch has a part in it: with any other two in their place the switch
  puts the same events into the buffer.
\<close>

theorem exit_before_init:
  assumes pend: "\<not> (new_scene s0 = - 1 \<and> new_subscene s0 = - 1)"
    and s: "s = call_scene_switch_callback X s0"
    and tgt: "scene_at (scenes s) (scene_num s) (subscene_num s) = Inr scene"
    and cur: "current_scene s0 \<noteq> - 1"
    and prev: "scene_at (scenes s0) (current_scene s0) (current_subscene s0) = Inr prev_scene"
    and ex: "exit_patch prev_scene = Some pe"
    and ini: "init_patch scene = Some pi"
  shows "process_scene_switch X s0 buffer =
           (case dummy_output X s0 pe of
              Inl e \<Rightarrow> Inl e
            | Inr out_exit \<Rightarrow>
                (case dummy_output X s0 pi of
                   Inl e \<Rightarrow> Inl e
                 | Inr out_init \<Rightarrow>
                     Inr (buffer @ out_exit @ out_init,
                          mark_done (s\<lparr>current_patch := Some (patch scene),
                            current_scene := scene_num s,
                            current_subscene := subscene_num s\<rparr>))))
         \<and> (\<forall>c q. map_sum id fst
                     (process_scene_switch X (s0\<lparr>ctrl_patch := c, pre_patch := q\<rparr>) buffer) =
                   map_sum id fst (process_scene_switch X s0 buffer))"
proof -
  have d: "dummy_output X s p = dummy_output X s0 p" for p
    unfolding s by (rule dummy_output_cong) simp_all
  have x: "run_exit_patch X s b =
      (case dummy_output X s0 pe of Inl e \<Rightarrow> Inl e | Inr out \<Rightarrow> Inr (b @ out))" for b
    using cur prev ex by (simp add: run_exit_patch_def s process_dummy_eq d [unfolded s])
  have i: "run_init_patch X s scene b =
      (case dummy_output X s0 pi of Inl e \<Rightarrow> Inl e | Inr out \<Rightarrow> Inr (b @ out))" for b
    using ini by (simp add: run_init_patch_def process_dummy_eq d)
  have "process_scene_switch X s0 buffer =
           (case dummy_output X s0 pe of
              Inl e \<Rightarrow> Inl e
            | Inr out_exit \<Rightarrow>
                (case dummy_output X s0 pi of
                   Inl e \<Rightarrow> Inl e
                 | Inr out_init \<Rightarrow>
                     Inr (buffer @ out_exit @ out_init,
                          mark_done (s\<lparr>current_patch := Some (patch scene),
                            current_scene := scene_num s,
                            current_subscene := subscene_num s\<rparr>))))"
    unfolding process_scene_switch_valid [OF pend s tgt] x i
    by (simp split: sum.splits)
  then show ?thesis
    by (simp add: process_scene_switch_ignores_ctrl_pre)
qed

text \<open>
  The witness of C6: the switch from subscene 1 of scene 1 to scene 2 puts the control
  change 120 of the exit patch before the control change 121 of the init patch.
\<close>

theorem exit_before_init_witness:
  "process_scene_switch ex_collab (switch_scene ex_engine 2 (- 1)) [] =
     Inr ([ex_ctrl 120 0, ex_ctrl 121 0], ex_engine_scene2)
   \<and> dummy_output ex_collab (switch_scene ex_engine 2 (- 1)) 30 = Inr [ex_ctrl 120 0]
   \<and> dummy_output ex_collab (switch_scene ex_engine 2 (- 1)) 31 = Inr [ex_ctrl 121 0]"
proof -
  let ?t = "switch_scene ex_engine 2 (- 1)"
  let ?sc = "\<lparr> patch = 20, init_patch = Some 31, exit_patch = None \<rparr>"
  let ?prev = "\<lparr> patch = 11, init_patch = None, exit_patch = Some 30 \<rparr>"
  have p: "\<not> (new_scene ?t = - 1 \<and> new_subscene ?t = - 1)"
    by (simp add: switch_scene_pending)
  have c: "?t = call_scene_switch_callback ex_collab ?t" by (simp add: ex_callback_neutral)
  have g: "scene_at (scenes ?t) (scene_num ?t) (subscene_num ?t) = Inr ?sc"
    by (simp add: scene_num_def subscene_num_def scene_at_def switch_scene_pending)
  have cur: "current_scene ?t \<noteq> - 1" by simp
  have prev: "scene_at (scenes ?t) (current_scene ?t) (current_subscene ?t) = Inr ?prev"
    by (simp add: scene_at_def)
  have d: "dummy_output ex_collab ?t 30 = Inr [ex_ctrl 120 0]"
    "dummy_output ex_collab ?t 31 = Inr [ex_ctrl 121 0]"
    by (simp_all add: ex_dummy_output)
  have m: "mark_done (?t\<lparr>current_patch := Some 20,
       current_scene := scene_num ?t, current_subscene := subscene_num ?t\<rparr>) = ex_engine_scene2"
    by (simp add: mark_done_def scene_num_def subscene_num_def switch_scene_def ex_engine_def
        ex_engine_scene2_def)
  from exit_before_init [OF p c g cur prev, of 30 31 "[]"] d m show ?thesis
    by simp
qed

text \<open>
  Claim C4 as stated fails. From subscene 1 of scene 1, the request
  \<^verbatim>\<open>switch_scene(1, -1)\<close> for the valid scene 1 does not keep the subscene: the
  switch goes to subscene 0.
\<close>

theorem switch_scene_subscene_counterexample:
  "process_scene_switch ex_collab (switch_scene ex_engine 1 (- 1)) [] =
     Inr ([ex_ctrl 120 0], ex_engine\<lparr>current_patch := Some 10, current_subscene := 0\<rparr>)
   \<and> current_subscene ex_engine = 1
   \<and> current_subscene (ex_engine\<lparr>current_patch := Some 10, current_subscene := 0\<rparr>) = 0"
  by (simp add: ex_switch_to_subscene_0)

text \<open>
  Claim C4, amended. With no request pending before and a handler that leaves the
  request as it is: after \<^verbatim>\<open>switch_scene(scene, -1)\<close> for a scene that has a
  subscene 0, a switch that returns has made that scene the current scene and 0 the
  current subscene, with the patch of that subscene as the current patch; after
  \<^verbatim>\<open>switch_scene(-1, subscene)\<close> for a subscene that the current scene has, a
  switch that returns has kept the current scene and made that subscene the current
  subscene.
\<close>

theorem switch_scene_keeps_scene_only:
  assumes idle: "new_scene s = - 1" "new_subscene s = - 1"
  shows "(scene \<noteq> - 1
          \<and> call_scene_switch_callback X (switch_scene s scene (- 1)) = switch_scene s scene (- 1)
          \<and> scene_at (scenes s) scene 0 = Inr sc
          \<and> process_scene_switch X (switch_scene s scene (- 1)) buffer = Inr (buffer', s')
          \<longrightarrow> current_scene s' = scene \<and> current_subscene s' = 0
              \<and> current_patch s' = Some (patch sc))
       \<and> (subscene \<noteq> - 1
          \<and> call_scene_switch_callback X (switch_scene s (- 1) subscene) = switch_scene s (- 1) subscene
          \<and> scene_at (scenes s) (current_scene s) subscene = Inr sc2
          \<and> process_scene_switch X (switch_scene s (- 1) subscene) buffer2 = Inr (buffer2', s2')
          \<longrightarrow> current_scene s2' = current_scene s \<and> current_subscene s2' = subscene
              \<and> current_patch s2' = Some (patch sc2))"
proof (intro conjI impI)
  let ?t = "switch_scene s scene (- 1)"
  assume a: "scene \<noteq> - 1 \<and> call_scene_switch_callback X ?t = ?t
     \<and> scene_at (scenes s) scene 0 = Inr sc
     \<and> process_scene_switch X ?t buffer = Inr (buffer', s')"
  then have t: "new_scene ?t = scene" "new_subscene ?t = - 1"
    using idle by (simp_all add: switch_scene_pending)
  then have n: "scene_num ?t = scene" "subscene_num ?t = 0"
    using a by (simp_all add: scene_num_def subscene_num_def)
  have p: "\<not> (new_scene ?t = - 1 \<and> new_subscene ?t = - 1)"
    using a t by simp
  have c: "?t = call_scene_switch_callback X ?t" using a by simp
  have g: "scene_at (scenes ?t) (scene_num ?t) (subscene_num ?t) = Inr sc"
    using a n by simp
  from process_scene_switch_valid [OF p c g, of buffer] a
  have "s' = mark_done (?t\<lparr>current_patch := Some (patch sc),
                            current_scene := scene_num ?t,
                            current_subscene := subscene_num ?t\<rparr>)"
    by (auto split: sum.splits)
  then show "current_scene s' = scene" "current_subscene s' = 0"
    "current_patch s' = Some (patch sc)"
    using n by simp_all
next
  let ?t = "switch_scene s (- 1) subscene"
  assume a: "subscene \<noteq> - 1 \<and> call_scene_switch_callback X ?t = ?t
     \<and> scene_at (scenes s) (current_scene s) subscene = Inr sc2
     \<and> process_scene_switch X ?t buffer2 = Inr (buffer2', s2')"
  then have t: "new_scene ?t = - 1" "new_subscene ?t = subscene"
    using idle by (simp_all add: switch_scene_pending)
  then have n: "scene_num ?t = current_scene s" "subscene_num ?t = subscene"
    using a by (simp_all add: scene_num_def subscene_num_def)
  have p: "\<not> (new_scene ?t = - 1 \<and> new_subscene ?t = - 1)"
    using a t by simp
  have c: "?t = call_scene_switch_callback X ?t" using a by simp
  have g: "scene_at (scenes ?t) (scene_num ?t) (subscene_num ?t) = Inr sc2"
    using a n by simp
  from process_scene_switch_valid [OF p c g, of buffer2] a
  have "s2' = mark_done (?t\<lparr>current_patch := Some (patch sc2),
                            current_scene := scene_num ?t,
                            current_subscene := subscene_num ?t\<rparr>)"
    by (auto split: sum.splits)
  then show "current_scene s2' = current_scene s" "current_subscene s2' = subscene"
    "current_patch s2' = Some (patch sc2)"
    using n by simp_all
qed

text \<open>
  The witness of C4: from subscene 1 of scene 1, \<^verbatim>\<open>switch_scene(2, -1)\<close> leads to
  subscene 0 of scene 2, and \<^verbatim>\<open>switch_scene(-1, 0)\<close> leads to subscene 0 of scene 1.
\<close>

theorem switch_scene_keeps_scene_only_witness:
  "process_scene_switch ex_collab (switch_scene ex_engine 2 (- 1)) [] =
     Inr ([ex_ctrl 120 0, ex_ctrl 121 0], ex_engine_scene2)
   \<and> current_scene ex_engine_scene2 = 2 \<and> current_subscene ex_engine_scene2 = 0
   \<and> current_patch ex_engine_scene2 = Some 20
   \<and> process_scene_switch ex_collab (switch_scene ex_engine (- 1) 0) [] =
     Inr ([ex_ctrl 120 0], ex_engine\<lparr>current_patch := Some 10, current_subscene := 0\<rparr>)
   \<and> current_scene (ex_engine\<lparr>current_patch := Some 10, current_subscene := 0\<rparr>) =
       current_scene ex_engine
   \<and> current_subscene (ex_engine\<lparr>current_patch := Some 10, current_subscene := 0\<rparr>) = 0"
proof -
  let ?sc = "\<lparr> patch = 20, init_patch = Some 31, exit_patch = None \<rparr>"
  let ?sc2 = "\<lparr> patch = 10, init_patch = None, exit_patch = Some 30 \<rparr>"
  have a: "process_scene_switch ex_collab (switch_scene ex_engine 2 (- 1)) [] =
     Inr ([ex_ctrl 120 0, ex_ctrl 121 0], ex_engine_scene2)"
    using ex_switch_to_2 [of Map.empty "[]"] by (simp add: ex_engine_noteon_empty)
  have b: "process_scene_switch ex_collab (switch_scene ex_engine (- 1) 0) [] =
     Inr ([ex_ctrl 120 0], ex_engine\<lparr>current_patch := Some 10, current_subscene := 0\<rparr>)"
    by (simp add: ex_switch_to_subscene_0)
  have h1: "scene_at (scenes ex_engine) 2 0 = Inr ?sc"
    and h2: "scene_at (scenes ex_engine) (current_scene ex_engine) 0 = Inr ?sc2"
    by (simp_all add: scene_at_def)
  from switch_scene_keeps_scene_only
    [of ex_engine 2 ex_collab ?sc "[]" "[ex_ctrl 120 0, ex_ctrl 121 0]" ex_engine_scene2
        0 ?sc2 "[]" "[ex_ctrl 120 0]" "ex_engine\<lparr>current_patch := Some 10, current_subscene := 0\<rparr>"]
    a b h1 h2
  show ?thesis
    by (simp add: ex_callback_neutral)
qed

section \<open>Properties of process and process\_event\<close>

lemma process_dummy_output:
  assumes "process_dummy X s p buffer = Inr buffer'"
  shows "\<exists>out. buffer' = buffer @ out \<and> list_all (valid_output s) out"
  using assms
  by (auto simp: process_dummy_def Let_def split: sum.splits dest: sanitize_patch_process_valid)

text \<open>
  The buffer after \<^verbatim>\<open>process\<close>: the output of the control patch, then events that
  the sanitize patch has let through.
\<close>

lemma process_output:
  assumes "process X s [] ev = Inr (buffer, s')"
  shows "\<exists>main. buffer = ctrl_output X s ev @ main \<and> list_all (valid_output s) main
           \<and> s' = snd (get_matching_patch s ev)"
proof -
  obtain matched s1 where g: "get_matching_patch s ev = (matched, s1)"
    by (cases "get_matching_patch s ev")
  then have s1: "s1 = snd (get_matching_patch s ev)" by simp
  have f: "verbose s1 = verbose s" "backend s1 = backend s" "ctrl_patch s1 = ctrl_patch s"
    by (simp_all add: s1)
  from assms g obtain p where m: "matched = Some p"
    by (cases matched) (simp_all add: process_def Let_def)
  from assms g m have "\<exists>r r'. sanitize_patch_process s1 r = Inr r'
      \<and> buffer = (case ctrl_patch s1 of None \<Rightarrow> [] | Some c \<Rightarrow> patch_process X c [ev]) @ r'
      \<and> s' = s1"
    by (auto simp: process_def Let_def split: sum.splits cong: option.case_cong)
  then obtain r r' where
    "sanitize_patch_process s1 r = Inr r'" and b: "buffer = ctrl_output X s ev @ r'" and t: "s' = s1"
    by (auto simp: ctrl_output_def f)
  then have "list_all (valid_output s1) r'"
    by (auto dest: sanitize_patch_process_valid)
  then have "list_all (valid_output s) r'"
    by (simp add: valid_output_cong [OF f(1,2)] cong: list.pred_cong)
  then show ?thesis
    using b t s1 by auto
qed

text \<open>The scene switch only appends, and only events that the sanitize patch let through.\<close>

lemma process_scene_switch_output:
  assumes "process_scene_switch X s buffer = Inr (buffer', s')"
  shows "\<exists>out. buffer' = buffer @ out \<and> list_all (valid_output s) out"
proof (cases "new_scene s = - 1 \<and> new_subscene s = - 1")
  case True
  with assms show ?thesis by (simp add: process_scene_switch_def)
next
  case False
  let ?t = "call_scene_switch_callback X s"
  have c: "valid_output ?t = valid_output s"
    by (rule ext) (simp add: valid_output_cong [of ?t s])
  have x: "run_exit_patch X ?t b = Inr b1 \<Longrightarrow> \<exists>out. b1 = b @ out \<and> list_all (valid_output s) out"
    for b b1
    by (auto simp: run_exit_patch_def c split: if_splits sum.splits option.splits
             dest!: process_dummy_output)
  have i: "run_init_patch X ?t sc b = Inr b1 \<Longrightarrow> \<exists>out. b1 = b @ out \<and> list_all (valid_output s) out"
    for b b1 sc
    by (auto simp: run_init_patch_def c split: option.splits dest!: process_dummy_output)
  from assms False show ?thesis
    by (auto simp: process_scene_switch_def Let_def
        split: if_splits option.splits sum.splits dest!: x i)
qed

lemma adopt_scene_0_fields:
  assumes "adopt_scene_0 s = Inr s1"
  shows "verbose s1 = verbose s" "backend s1 = backend s" "ctrl_patch s1 = ctrl_patch s"
    "noteon_patches s1 = noteon_patches s"
  using assms by (auto simp: adopt_scene_0_def split: option.splits sum.splits)

text \<open>
  Claim C2 as stated fails. With a control patch that leaves its range as it is, a
  note-on with port -1 comes back from \<^verbatim>\<open>process_event\<close>: the copy that went
  through the control patch is returned, and it does not pass sanitize.
\<close>

theorem ctrl_output_unsanitized_counterexample:
  "map_sum id fst (process_event ex_collab ex_engine_ctrl ex_noteon_bad_port)
     = Inr [ex_noteon_bad_port]
   \<and> \<not> sanitize_ok ex_engine_ctrl ex_noteon_bad_port
   \<and> port ex_noteon_bad_port = - 1"
proof -
  have t: "type ex_noteon_bad_port = MIDI_EVENT_NOTEON" "port ex_noteon_bad_port = - 1"
    by (simp_all add: ex_noteon_bad_port_def ex_noteon_def ex_event_def)
  have s: "sanitize_event s ex_noteon_bad_port = Inr (False, ex_noteon_bad_port)"
    if "verbose s = False" for s
    using that t by (simp add: sanitize_event_def port_out_of_range_def)
  have a: "adopt_scene_0 ex_engine_ctrl = Inr ex_engine_ctrl"
    by (simp add: adopt_scene_0_def ex_engine_ctrl_def)
  let ?s1 = "snd (get_matching_patch ex_engine_ctrl ex_noteon_bad_port)"
  have p: "process ex_collab ex_engine_ctrl [] ex_noteon_bad_port
     = Inr ([ex_noteon_bad_port], ?s1)"
    using t
    by (simp add: process_def get_matching_patch_def Let_def ex_engine_ctrl_def
        ex_patch_process_def s)
  have q: "new_scene ex_engine_ctrl = - 1" "new_subscene ex_engine_ctrl = - 1"
    by (simp_all add: ex_engine_ctrl_def)
  have "process_event ex_collab ex_engine_ctrl ex_noteon_bad_port
     = Inr ([ex_noteon_bad_port], ?s1)"
    by (simp add: process_event_def a p process_scene_switch_def q)
  then have "map_sum id fst (process_event ex_collab ex_engine_ctrl ex_noteon_bad_port)
     = Inr [ex_noteon_bad_port]"
    by simp
  moreover have "\<not> sanitize_ok ex_engine_ctrl ex_noteon_bad_port"
    by (simp add: sanitize_ok_def s ex_engine_ctrl_def)
  ultimately show ?thesis using t by simp
qed

text \<open>
  Claim C2, amended. What \<^verbatim>\<open>process_event\<close> returns is the output of the control
  patch followed by events that all pass the predicates of sanitize: port and channel
  in range, the checks of the kind passed, not a dummy event. Without a control patch
  every returned event passes them.
\<close>

theorem process_event_output_sanitized:
  assumes "process_event X s ev = Inr (out, s')"
  shows "\<exists>rest. out = ctrl_output X s ev @ rest \<and> list_all (valid_output s) rest
           \<and> (ctrl_patch s = None \<longrightarrow> list_all (valid_output s) out)"
proof -
  from assms obtain s1 buffer s2 where
    a: "adopt_scene_0 s = Inr s1" and
    p: "process X s1 [] ev = Inr (buffer, s2)" and
    w: "process_scene_switch X s2 buffer = Inr (out, s')"
    by (auto simp: process_event_def split: sum.splits)
  note f = adopt_scene_0_fields [OF a]
  from process_output [OF p] obtain main where
    m: "buffer = ctrl_output X s1 ev @ main" "list_all (valid_output s1) main"
       "s2 = snd (get_matching_patch s1 ev)"
    by blast
  from process_scene_switch_output [OF w] obtain extra where
    e: "out = buffer @ extra" "list_all (valid_output s2) extra"
    by blast
  have v1: "valid_output s1 = valid_output s"
    by (rule ext) (simp add: valid_output_cong [of s1 s] f)
  have "verbose s2 = verbose s" "backend s2 = backend s"
    by (simp_all add: m(3) f)
  then have v2: "valid_output s2 = valid_output s"
    by (intro ext valid_output_cong)
  have c: "ctrl_output X s1 ev = ctrl_output X s ev"
    by (simp add: ctrl_output_def f)
  have "out = ctrl_output X s ev @ (main @ extra)" "list_all (valid_output s) (main @ extra)"
    using m e v1 v2 c by simp_all
  moreover have "ctrl_patch s = None \<Longrightarrow> ctrl_output X s ev = []"
    by (simp add: ctrl_output_def)
  ultimately show ?thesis by auto
qed

text \<open>
  In subscene 1 of scene 1 with the switch to scene 2 pending, the control change 7
  comes back followed by the control changes of the exit and of the init patch.
\<close>

lemma ex_process_event:
  "process_event ex_collab (switch_scene (ex_engine\<lparr>noteon_patches := m\<rparr>) 2 (- 1)) (ex_ctrl 7 0) =
     Inr ([ex_ctrl 7 0, ex_ctrl 120 0, ex_ctrl 121 0], ex_engine_scene2\<lparr>noteon_patches := m\<rparr>)"
proof -
  let ?s = "switch_scene (ex_engine\<lparr>noteon_patches := m\<rparr>) 2 (- 1)"
  have a: "adopt_scene_0 ?s = Inr ?s"
    by (simp add: adopt_scene_0_def)
  have g: "get_matching_patch ?s (ex_ctrl 7 0) = (Some 11, ?s)"
    by (simp add: get_matching_patch_def ex_ctrl_def ex_event_def)
  have f: "pre_patch ?s = None"
    by (simp add: switch_scene_def Let_def)
  have p: "process ex_collab ?s [] (ex_ctrl 7 0) = Inr ([ex_ctrl 7 0], ?s)"
    by (simp add: process_def g f Let_def ex_patch_process_def)
  show ?thesis
    by (simp add: process_event_def a p ex_switch_to_2)
qed

text \<open>
  The witness of C2: without a control patch, the three events that
  \<^verbatim>\<open>process_event\<close> returns there all pass the predicates of sanitize.
\<close>

theorem process_event_output_sanitized_witness:
  "process_event ex_collab (switch_scene ex_engine 2 (- 1)) (ex_ctrl 7 0) =
     Inr ([ex_ctrl 7 0, ex_ctrl 120 0, ex_ctrl 121 0], ex_engine_scene2)
   \<and> list_all (valid_output (switch_scene ex_engine 2 (- 1)))
        [ex_ctrl 7 0, ex_ctrl 120 0, ex_ctrl 121 0]"
proof -
  let ?t = "switch_scene ex_engine 2 (- 1)"
  have a: "process_event ex_collab ?t (ex_ctrl 7 0) =
     Inr ([ex_ctrl 7 0, ex_ctrl 120 0, ex_ctrl 121 0], ex_engine_scene2)"
    using ex_process_event [of Map.empty] by (simp add: ex_engine_noteon_empty)
  have c: "ctrl_patch ?t = None"
    by simp
  from process_event_output_sanitized [OF a] c a show ?thesis
    by (auto simp: ctrl_output_def)
qed

text \<open>
  Claim C10. With no current patch, \<^verbatim>\<open>process_event\<close> reads the first subscene
  of scene 0 without a check. The read is an error when the scene table has no scene
  0, and when scene 0 has no subscene; it is defined exactly when scene 0 has a first
  subscene, whose patch then becomes the current patch.
\<close>

theorem process_event_adopts_scene_0:
  assumes "current_patch s = None"
  shows "(scenes s 0 = None \<longrightarrow> process_event X s ev = Inl SceneNotFound)
       \<and> (scenes s 0 = Some [] \<longrightarrow> process_event X s ev = Inl IndexOutOfRange)
       \<and> (\<forall>sc rest. scenes s 0 = Some (sc # rest) \<longrightarrow>
            adopt_scene_0 s = Inr (s\<lparr>current_patch := Some (patch sc)\<rparr>))
       \<and> ((\<exists>s1. adopt_scene_0 s = Inr s1) = (\<exists>sc rest. scenes s 0 = Some (sc # rest)))"
proof -
  have a: "scenes s 0 = None \<Longrightarrow> adopt_scene_0 s = Inl SceneNotFound"
    and b: "scenes s 0 = Some [] \<Longrightarrow> adopt_scene_0 s = Inl IndexOutOfRange"
    and c: "scenes s 0 = Some (sc # rest) \<Longrightarrow>
      adopt_scene_0 s = Inr (s\<lparr>current_patch := Some (patch sc)\<rparr>)" for sc rest
    using assms by (simp_all add: adopt_scene_0_def scene_at_def)
  have "(\<exists>s1. adopt_scene_0 s = Inr s1) = (\<exists>sc rest. scenes s 0 = Some (sc # rest))"
  proof (cases "scenes s 0")
    case None
    with a show ?thesis by simp
  next
    case (Some subs)
    with b c show ?thesis by (cases subs) simp_all
  qed
  with a b c show ?thesis
    by (simp add: process_event_def)
qed

text \<open>
  The witness of C10: before any scene switch, with the scenes 1 and 2 only,
  \<^verbatim>\<open>process_event\<close> fails on the missing scene 0.
\<close>

theorem process_event_adopts_scene_0_witness:
  "process_event ex_collab ex_engine_fresh ex_noteon = Inl SceneNotFound
   \<and> current_patch ex_engine_fresh = None \<and> scenes ex_engine_fresh 0 = None"
proof -
  have c: "current_patch ex_engine_fresh = None" and z: "scenes ex_engine_fresh 0 = None"
    by (simp_all add: ex_engine_fresh_def)
  from process_event_adopts_scene_0 [OF c, of ex_collab ex_noteon] c z show ?thesis by simp
qed

section \<open>A note-off follows the entry of its key\<close>

lemma process_scene_switch_noteon:
  "process_scene_switch X s buffer = Inr (buffer', s') \<Longrightarrow>
     noteon_patches s' = noteon_patches s
     \<and> max_simultaneous_notes s' = max_simultaneous_notes s"
  by (auto simp: process_scene_switch_def Let_def mark_done_def
        call_scene_switch_callback_def
      split: if_splits option.splits sum.splits prod.splits)

lemma adopt_scene_0_tables:
  "adopt_scene_0 s = Inr s1 \<Longrightarrow>
     noteon_patches s1 = noteon_patches s
     \<and> max_simultaneous_notes s1 = max_simultaneous_notes s"
  by (auto simp: adopt_scene_0_def split: option.splits sum.splits)

lemma run_async_noteon:
  "run_async X s = Inr (out, s') \<Longrightarrow>
     noteon_patches s' = noteon_patches s
     \<and> max_simultaneous_notes s' = max_simultaneous_notes s"
  by (auto simp: run_async_def split: if_splits dest: process_scene_switch_noteon)

text \<open>
  One event through \<^verbatim>\<open>process\<close> and the scene switch, from a table with room for
  a note-on: an entry stays unless the event is the note-off of its key, the table
  grows by at most the one note-on, and its capacity stays.
\<close>

lemma process_then_switch_tables:
  assumes p: "process X s [] ev = Inr (buffer, s1)"
    and w: "process_scene_switch X s1 buffer = Inr (out, s')"
    and room: "type ev = MIDI_EVENT_NOTEON \<Longrightarrow>
                 card (dom (noteon_patches s)) < max_simultaneous_notes s"
  shows "(noteon_patches s k = Some q
            \<and> \<not> (type ev = MIDI_EVENT_NOTEOFF \<and> make_notekey ev = k)
          \<longrightarrow> noteon_patches s' k = Some q)
       \<and> card (dom (noteon_patches s'))
            \<le> card (dom (noteon_patches s)) + (if type ev = MIDI_EVENT_NOTEON then 1 else 0)
       \<and> max_simultaneous_notes s' = max_simultaneous_notes s"
proof -
  from process_output [OF p] have s1: "s1 = snd (get_matching_patch s ev)"
    by blast
  note t = process_scene_switch_noteon [OF w]
  have "noteon_patches s k = Some q
      \<Longrightarrow> \<not> (type ev = MIDI_EVENT_NOTEOFF \<and> make_notekey ev = k)
      \<Longrightarrow> noteon_patches s' k = Some q"
    using get_matching_patch_keeps_entry [of s k q ev] room t by (simp add: s1)
  moreover have "card (dom (noteon_patches s'))
      \<le> card (dom (noteon_patches s)) + (if type ev = MIDI_EVENT_NOTEON then 1 else 0)"
    using get_matching_patch_card [of ev s] room t by (simp add: s1)
  moreover have "max_simultaneous_notes s' = max_simultaneous_notes s"
    using t by (simp add: s1)
  ultimately show ?thesis by blast
qed

text \<open>
  An entry of the note-on table stays through any sequence of calls that hands the
  engine no note-off of its key and no more note-ons than the table has room for.
\<close>

lemma run_calls_keeps_entry:
  assumes "run_calls X s cs = Inr s'"
    and "noteon_patches s k = Some q"
    and "list_all (\<lambda>c. \<not> releases k c) cs"
    and "card (dom (noteon_patches s)) + sum_list (map note_ons cs)
           \<le> max_simultaneous_notes s"
  shows "noteon_patches s' k = Some q"
  using assms
proof (induction X s cs rule: run_calls.induct)
  case (1 X s)
  then show ?case by simp
next
  case (2 X s a b cs)
  then show ?case by simp
next
  case (3 X s ev cs)
  from "3.prems"(1) obtain out s1 where
    e: "process_event X s ev = Inr (out, s1)" and r: "run_calls X s1 cs = Inr s'"
    by (auto split: sum.splits)
  from e obtain s0 buffer s2 where
    a: "adopt_scene_0 s = Inr s0" and
    p: "process X s0 [] ev = Inr (buffer, s2)" and
    w: "process_scene_switch X s2 buffer = Inr (out, s1)"
    by (auto simp: process_event_def split: sum.splits)
  note f = adopt_scene_0_tables [OF a]
  have room: "type ev = MIDI_EVENT_NOTEON \<Longrightarrow>
      card (dom (noteon_patches s0)) < max_simultaneous_notes s0"
    using "3.prems"(4) f by simp
  from process_then_switch_tables [OF p w room, of k q] "3.prems"(2,3,4) f
  have "noteon_patches s1 k = Some q"
    and "card (dom (noteon_patches s1)) + sum_list (map note_ons cs)
           \<le> max_simultaneous_notes s1"
    by (auto split: if_splits)
  then show ?case
    using "3.IH" e r "3.prems"(3) by simp
next
  case (4 X s ev cs)
  from "4.prems"(1) obtain out s1 where
    e: "run_cycle_event X s ev = Inr (out, s1)" and r: "run_calls X s1 cs = Inr s'"
    by (auto split: sum.splits)
  from e obtain buffer s2 where
    p: "process X s [] ev = Inr (buffer, s2)" and
    w: "process_scene_switch X s2 buffer = Inr (out, s1)"
    by (auto simp: run_cycle_event_def split: sum.splits)
  have room: "type ev = MIDI_EVENT_NOTEON \<Longrightarrow>
      card (dom (noteon_patches s)) < max_simultaneous_notes s"
    using "4.prems"(4) by simp
  from process_then_switch_tables [OF p w room, of k q] "4.prems"(2,3,4)
  have "noteon_patches s1 k = Some q"
    and "card (dom (noteon_patches s1)) + sum_list (map note_ons cs)
           \<le> max_simultaneous_notes s1"
    by (auto split: if_splits)
  then show ?case
    using "4.IH" e r "4.prems"(3) by simp
next
  case (5 X s cs)
  from "5.prems"(1) obtain out s1 where
    e: "run_async X s = Inr (out, s1)" and r: "run_calls X s1 cs = Inr s'"
    by (auto split: sum.splits)
  from run_async_noteon [OF e] "5.prems"(2,4)
  have "noteon_patches s1 k = Some q"
    and "card (dom (noteon_patches s1)) + sum_list (map note_ons cs)
           \<le> max_simultaneous_notes s1"
    by simp_all
  then show ?case
    using "5.IH" e r "5.prems"(3) by simp
qed

text \<open>
  How the engine comes to hold note 60 for patch 10 while patch 11 is current: a
  note-on in subscene 0 of scene 1, then \<^verbatim>\<open>switch_scene(-1, 1)\<close> and
  \<^verbatim>\<open>run_async\<close>.
\<close>

lemma ex_engine_held_reached:
  "run_calls ex_collab ex_engine_subscene0
     [ProcessEvent ex_noteon, SwitchScene (- 1) 1, RunAsync] = Inr ex_engine_held"
proof -
  let ?a = "ex_engine_subscene0"
  let ?b = "?a\<lparr>noteon_patches := [make_notekey ex_noteon \<mapsto> Some 10]\<rparr>"
  let ?t = "switch_scene ?b (- 1) 1"
  let ?sc = "\<lparr> patch = 11, init_patch = None, exit_patch = Some 30 \<rparr>"
  have t: "type ex_noteon = MIDI_EVENT_NOTEON"
    by (simp add: ex_noteon_def ex_event_def)
  have f: "verbose ?a = False" "backend ?a = Some 1" "ctrl_patch ?a = None"
    "pre_patch ?a = None" "post_patch ?a = None" "current_patch ?a = Some 10"
    "new_scene ?a = - 1" "new_subscene ?a = - 1" "noteon_patches ?a = Map.empty"
    "max_simultaneous_notes ?a = 128"
    "scenes ?a = ex_scenes" "current_scene ?a = 1" "current_subscene ?a = 0"
    by (simp_all add: ex_engine_subscene0_def)
  have a: "adopt_scene_0 ?a = Inr ?a"
    by (simp add: adopt_scene_0_def f)
  have g: "get_matching_patch ?a ex_noteon = (Some 10, ?b)"
    by (simp add: get_matching_patch_def table_insert_def t f)
  have s: "sanitize_event ?b ex_noteon = Inr (True, ex_noteon)"
    by (simp add: sanitize_event_def sanitize_note_def port_out_of_range_def f
        ex_noteon_def ex_event_def)
  have p: "process ex_collab ?a [] ex_noteon = Inr ([ex_noteon], ?b)"
    by (simp add: process_def g f s Let_def ex_patch_process_def)
  have e: "process_event ex_collab ?a ex_noteon = Inr ([ex_noteon], ?b)"
    by (simp add: process_event_def a p process_scene_switch_def f)
  have pend: "\<not> (new_scene ?t = - 1 \<and> new_subscene ?t = - 1)"
    by (simp add: switch_scene_pending)
  have c: "?t = call_scene_switch_callback ex_collab ?t"
    by (simp add: ex_callback_neutral)
  have tg: "scene_at (scenes ?t) (scene_num ?t) (subscene_num ?t) = Inr ?sc"
    by (simp add: scene_num_def subscene_num_def scene_at_def switch_scene_pending f)
  have x: "run_exit_patch ex_collab ?t [] = Inr ([] @ [ex_ctrl 120 0])"
    by (rule ex_run_exit_patch) (simp_all add: f)
  have m: "mark_done (?t\<lparr>current_patch := Some 11,
       current_scene := scene_num ?t, current_subscene := subscene_num ?t\<rparr>) = ex_engine_held"
    by (simp add: scene_num_def subscene_num_def mark_done_def switch_scene_def
        ex_engine_subscene0_def ex_engine_held_def ex_engine_def)
  have w: "process_scene_switch ex_collab ?t [] = Inr ([ex_ctrl 120 0], ex_engine_held)"
    by (simp add: process_scene_switch_valid [OF pend c tg] x run_init_patch_def m)
  have "run_async ex_collab ?t = Inr ([ex_ctrl 120 0], ex_engine_held)"
    using pend by (simp add: run_async_def f w)
  then show ?thesis
    by (simp add: e)
qed

text \<open>
  Claim C1, evaluated. The engine is in subscene 1 of scene 1, with patch 11, and
  the table still holds patch 10 for note 60 (the state reached above). A second
  note-on of note 60 is matched to the current patch 11, but the current patch is not
  recorded: the table keeps patch 10 for the key, and the note-off that follows is
  matched to patch 10, not to the patch of the note-on before it.
\<close>

theorem noteon_held_keeps_old_patch:
  "fst (get_matching_patch ex_engine_held ex_noteon) = Some 11
   \<and> current_patch ex_engine_held = Some 11
   \<and> noteon_patches (snd (get_matching_patch ex_engine_held ex_noteon)) (make_notekey ex_noteon)
       = Some (Some 10)
   \<and> fst (get_matching_patch (snd (get_matching_patch ex_engine_held ex_noteon)) ex_noteoff)
       = Some 10"
  by (simp add: get_matching_patch_def table_insert_def ex_engine_held_def ex_noteon_def
      ex_noteoff_def ex_event_def make_notekey_def)

text \<open>
  What holds of the note-on table. A note-on is matched to the current patch, and
  afterwards the table holds an entry for its key: the current patch when the key had
  no entry, the entry that was there otherwise. After any sequence of calls of
  \<^verbatim>\<open>switch_scene\<close>, \<^verbatim>\<open>process_event\<close>, \<^verbatim>\<open>run_async\<close> and turns of
  \<^verbatim>\<open>run_cycle\<close> that returns, hands the engine no note-off of that key and no
  more note-ons than the table has room for, a note-off of the key is matched to that
  entry and removes it, whatever the current patch has become.
\<close>

lemma noteoff_follows_entry:
  assumes "type on = MIDI_EVENT_NOTEON"
    and "get_matching_patch s on = (p, s1)"
    and "run_calls X s1 cs = Inr s2"
    and "list_all (\<lambda>c. \<not> releases (make_notekey on) c) cs"
    and "card (dom (noteon_patches s1)) + sum_list (map note_ons cs)
           \<le> max_simultaneous_notes s1"
    and "type off = MIDI_EVENT_NOTEOFF"
    and "make_notekey off = make_notekey on"
  shows "p = current_patch s
       \<and> noteon_patches s1 (make_notekey on) = Some (recorded_patch s (make_notekey on))
       \<and> (noteon_patches s (make_notekey on) = None \<longrightarrow>
            recorded_patch s (make_notekey on) = current_patch s)
       \<and> fst (get_matching_patch s2 off) = recorded_patch s (make_notekey on)
       \<and> noteon_patches (snd (get_matching_patch s2 off)) (make_notekey on) = None"
proof -
  let ?k = "make_notekey on"
  have p: "p = current_patch s"
    using assms(1,2) by (auto simp: get_matching_patch_def)
  have r: "noteon_patches s1 ?k = Some (recorded_patch s ?k)"
    using assms(1,2)
    by (auto simp: get_matching_patch_def table_insert_def recorded_patch_def
        split: option.splits)
  have "noteon_patches s2 ?k = Some (recorded_patch s ?k)"
    using assms(3) r assms(4,5) by (rule run_calls_keeps_entry)
  then have "fst (get_matching_patch s2 off) = recorded_patch s ?k"
    and "noteon_patches (snd (get_matching_patch s2 off)) ?k = None"
    using assms(6,7) by (simp_all add: get_matching_patch_def)
  with p r show ?thesis
    by (simp add: recorded_patch_def)
qed

text \<open>
  An instance: a note-on of note 60 in subscene 1 of scene 1 (patch 11), then
  \<^verbatim>\<open>switch_scene(2, -1)\<close> and a control change through \<^verbatim>\<open>process_event\<close>,
  which makes patch 20 the current patch; the note-off of note 60 is matched to
  patch 11 and its entry is gone.
\<close>

lemma noteoff_follows_entry_instance:
  "fst (get_matching_patch ex_engine ex_noteon) = Some 11
   \<and> run_calls ex_collab (snd (get_matching_patch ex_engine ex_noteon))
        [SwitchScene 2 (- 1), ProcessEvent (ex_ctrl 7 0)] =
      Inr (ex_engine_scene2\<lparr>noteon_patches := [make_notekey ex_noteon \<mapsto> Some 11]\<rparr>)
   \<and> current_patch (ex_engine_scene2\<lparr>noteon_patches := [make_notekey ex_noteon \<mapsto> Some 11]\<rparr>)
      = Some 20
   \<and> fst (get_matching_patch
        (ex_engine_scene2\<lparr>noteon_patches := [make_notekey ex_noteon \<mapsto> Some 11]\<rparr>) ex_noteoff)
      = Some 11
   \<and> noteon_patches (snd (get_matching_patch
        (ex_engine_scene2\<lparr>noteon_patches := [make_notekey ex_noteon \<mapsto> Some 11]\<rparr>) ex_noteoff))
        (make_notekey ex_noteon) = None"
proof -
  have t: "type ex_noteon = MIDI_EVENT_NOTEON" "type ex_noteoff = MIDI_EVENT_NOTEOFF"
    "make_notekey ex_noteoff = make_notekey ex_noteon"
    by (simp_all add: ex_noteon_def ex_noteoff_def ex_event_def make_notekey_def)
  have g: "snd (get_matching_patch ex_engine ex_noteon) =
      ex_engine\<lparr>noteon_patches := [make_notekey ex_noteon \<mapsto> Some 11]\<rparr>"
    by (simp add: get_matching_patch_def table_insert_def t)
  have run: "run_calls ex_collab (snd (get_matching_patch ex_engine ex_noteon))
     [SwitchScene 2 (- 1), ProcessEvent (ex_ctrl 7 0)] =
     Inr (ex_engine_scene2\<lparr>noteon_patches := [make_notekey ex_noteon \<mapsto> Some 11]\<rparr>)"
    by (simp add: g ex_process_event)
  have c: "list_all (\<lambda>c. \<not> releases (make_notekey ex_noteon) c)
             [SwitchScene 2 (- 1), ProcessEvent (ex_ctrl 7 0)]"
    by (simp add: ex_ctrl_def ex_event_def)
  have n: "card (dom (noteon_patches (snd (get_matching_patch ex_engine ex_noteon))))
        + sum_list (map note_ons [SwitchScene 2 (- 1), ProcessEvent (ex_ctrl 7 0)])
      \<le> max_simultaneous_notes (snd (get_matching_patch ex_engine ex_noteon))"
    by (simp add: g ex_ctrl_def ex_event_def)
  have r: "recorded_patch ex_engine (make_notekey ex_noteon) = Some 11"
    by (simp add: recorded_patch_def)
  from noteoff_follows_entry [OF t(1) surjective_pairing run c n t(2) t(3)] run
  show ?thesis
    by (simp add: r ex_engine_scene2_def)
qed

end
